theory Spec2Isabelle
  imports Main "HOL-Library.Word"
begin

unbundle bit_operations_syntax

section \<open>Primitives\<close>

text \<open>
  \<^verbatim>\<open>char32_t\<close> is a 32-bit word. A \<^verbatim>\<open>std::string\<close> is a list of bytes
  (\<^typ>\<open>string\<close>). \<^verbatim>\<open>ColumnOffset\<close> and \<^verbatim>\<open>ColumnCount\<close> box an \<^verbatim>\<open>int\<close>;
  \<^verbatim>\<open>size_t\<close> is 64 bits wide, and the conversions between the two are written out.
\<close>

type_synonym char32_t = "32 word"

definition size_t_max :: int where
  \<comment> \<open>\<open>2^64\<close>\<close>
  "size_t_max = 18446744073709551616"

definition to_size_t :: "int \<Rightarrow> nat" where
  \<comment> \<open>\<^verbatim>\<open>static_cast<size_t>(int)\<close> and \<^verbatim>\<open>unbox<size_t>(boxed int)\<close>: reduction modulo \<open>2^64\<close>\<close>
  "to_size_t i = nat (i mod size_t_max)"

definition size_t_sub :: "nat \<Rightarrow> nat \<Rightarrow> nat" where
  \<comment> \<open>subtraction of two \<^verbatim>\<open>size_t\<close> values wraps around\<close>
  "size_t_sub a b = nat ((int a - int b) mod size_t_max)"

definition char_int :: "char \<Rightarrow> int" where
  \<comment> \<open>a \<^verbatim>\<open>char\<close> promoted to \<^verbatim>\<open>int\<close>, \<^verbatim>\<open>char\<close> being signed\<close>
  "char_int c = (if (of_char c :: int) < 128 then of_char c else of_char c - 256)"

definition char32_of_char :: "char \<Rightarrow> char32_t" where
  \<comment> \<open>\<^verbatim>\<open>static_cast<char32_t>(char)\<close>: the signed value, reduced modulo \<open>2^32\<close>\<close>
  "char32_of_char c = word_of_int (char_int c)"

definition byte :: "char32_t \<Rightarrow> char" where
  "byte w = char_of (unat w)"

definition convert_to_char :: "char32_t \<Rightarrow> string" where
  \<comment> \<open>\<^verbatim>\<open>unicode::convert_to<char>(char32_t)\<close> of libunicode: the UTF-8 encoding of one codepoint\<close>
  "convert_to_char cp =
     (if cp < 0x80 then [byte cp]
      else if cp < 0x800 then
        [byte (0xC0 OR drop_bit 6 cp), byte (0x80 OR (cp AND 0x3F))]
      else if cp < 0x10000 then
        [byte (0xE0 OR drop_bit 12 cp), byte (0x80 OR (drop_bit 6 cp AND 0x3F)),
         byte (0x80 OR (cp AND 0x3F))]
      else
        [byte (0xF0 OR (drop_bit 18 cp AND 0x07)), byte (0x80 OR (drop_bit 12 cp AND 0x3F)),
         byte (0x80 OR (drop_bit 6 cp AND 0x3F)), byte (0x80 OR (cp AND 0x3F))])"

definition convert_to_string :: "char32_t list \<Rightarrow> string" where
  \<comment> \<open>\<^verbatim>\<open>unicode::convert_to<char>(std::u32string_view)\<close>\<close>
  "convert_to_string cps = concat (map convert_to_char cps)"

section \<open>Cells (vtbackend/cell/CompactCell.cpp)\<close>

text \<open>
  CompactCell.h, GraphicsAttributes.h and Hyperlink.h are not among the sources. A cell has
  the members that CompactCell.cpp reads, \<^verbatim>\<open>_codepoint\<close> and the optional \<^verbatim>\<open>_extra\<close> payload
  with its \<^verbatim>\<open>codepoints\<close>, and, as the spec's data model has it, a display width, graphics
  attributes and a hyperlink id; colours and hyperlink ids are plain numbers.
\<close>

record GraphicsAttributes =
  foregroundColor :: nat
  backgroundColor :: nat
  underlineColor :: nat
  cellFlags :: "32 word"

record CellExtra =
  extra_codepoints :: "char32_t list"
  extra_hyperlink :: nat

record CompactCell =
  cell_codepoint :: char32_t
  cell_extra :: "CellExtra option"
  cell_width :: "8 word"
  cell_attributes :: GraphicsAttributes

text \<open>
  \<^verbatim>\<open>CompactCell::codepoints\<close>: the result string \<^verbatim>\<open>s\<close> starts empty; the loop over
  \<^verbatim>\<open>_extra->codepoints\<close> appends one codepoint per round.
\<close>

definition codepoints :: "CompactCell \<Rightarrow> char32_t list" where
  "codepoints c =
     (let s = [] in
      if cell_codepoint c \<noteq> 0 then
        (let s = s @ [cell_codepoint c] in
         case cell_extra c of
           Some e \<Rightarrow> foldl (\<lambda>s cp. s @ [cp]) s (extra_codepoints e)
         | None \<Rightarrow> s)
      else s)"

text \<open>\<^verbatim>\<open>CompactCell::toUtf8\<close>: an early return for the codepoint 0, then the same loop.\<close>

definition toUtf8 :: "CompactCell \<Rightarrow> string" where
  "toUtf8 c =
     (if cell_codepoint c = 0 then []
      else
        (let text = [] @ convert_to_char (cell_codepoint c) in
         case cell_extra c of
           Some e \<Rightarrow> foldl (\<lambda>text cp. text @ convert_to_char cp) text (extra_codepoints e)
         | None \<Rightarrow> text))"

definition stored_extra_codepoints :: "CompactCell \<Rightarrow> char32_t list" where
  \<comment> \<open>the extra codepoints of the cell's payload, in stored order (none without a payload)\<close>
  "stored_extra_codepoints c =
     (case cell_extra c of Some e \<Rightarrow> extra_codepoints e | None \<Rightarrow> [])"

section \<open>Lines (vtbackend/Line.h)\<close>

datatype error = AssertionFailed | OutOfRange | BadVariantAccess

type_synonym LineFlags = "8 word"

definition LineFlags_Wrappable :: LineFlags where "LineFlags_Wrappable = 0x01"
definition LineFlags_Wrapped :: LineFlags where "LineFlags_Wrapped = 0x02"
definition LineFlags_Marked :: LineFlags where "LineFlags_Marked = 0x04"

record TrivialLineBuffer =
  displayWidth :: int
  textAttributes :: GraphicsAttributes
  fillAttributes :: GraphicsAttributes
  hyperlink :: nat
  usedColumns :: int
  "text" :: string

definition TrivialLineBuffer_reset :: "GraphicsAttributes \<Rightarrow> TrivialLineBuffer \<Rightarrow> TrivialLineBuffer" where
  "TrivialLineBuffer_reset attributes b =
     b\<lparr>textAttributes := attributes, fillAttributes := attributes, hyperlink := 0,
       usedColumns := 0, text := []\<rparr>"

definition TrivialBuffer :: "int \<Rightarrow> GraphicsAttributes \<Rightarrow> TrivialLineBuffer" where
  \<comment> \<open>the aggregate \<^verbatim>\<open>TrivialBuffer { count, attributes }\<close>: the other members take their defaults\<close>
  "TrivialBuffer count attributes =
     \<lparr>displayWidth = count, textAttributes = attributes, fillAttributes = attributes,
      hyperlink = 0, usedColumns = 0, text = []\<rparr>"

datatype LineStorage = Trivial TrivialLineBuffer | Inflated "CompactCell list"

record Line =
  line_storage :: LineStorage
  line_flags :: "32 word"

definition defaultAttributes :: GraphicsAttributes where
  "defaultAttributes =
     \<lparr>foregroundColor = 0, backgroundColor = 0, underlineColor = 0, cellFlags = 0\<rparr>"

text \<open>
  Modelled from the spec: the cell operations \<^verbatim>\<open>reset\<close>, \<^verbatim>\<open>write\<close> and \<^verbatim>\<open>empty\<close>
  (declared in CompactCell.h, which is not among the sources). A cell holds a primary
  codepoint (0 means empty), optional extra codepoints, a display width and graphics
  attributes; writing replaces codepoint, width and attributes.
\<close>

definition Cell_reset :: "CompactCell \<Rightarrow> CompactCell" where
  "Cell_reset c =
     \<lparr>cell_codepoint = 0, cell_extra = None, cell_width = 1, cell_attributes = defaultAttributes\<rparr>"

definition Cell_write :: "GraphicsAttributes \<Rightarrow> char32_t \<Rightarrow> 8 word \<Rightarrow> CompactCell \<Rightarrow> CompactCell" where
  "Cell_write attributes cp width c =
     c\<lparr>cell_codepoint := cp,
       cell_extra := map_option (\<lambda>e. e\<lparr>extra_codepoints := []\<rparr>) (cell_extra c),
       cell_width := width, cell_attributes := attributes\<rparr>"

definition Cell_empty :: "CompactCell \<Rightarrow> bool" where
  "Cell_empty c = (cell_codepoint c = 0)"

text \<open>
  Modelled from the spec: \<^verbatim>\<open>inflate\<close> (declared in Line.h, defined in Line.cpp, which is not
  among the sources). A trivial run is one shared attribute set plus a packed byte string;
  the inflated form has one cell per column. The model covers US-ASCII text, one byte per
  column of width 1 (the source decodes UTF-8 and grapheme clusters with libunicode): the
  bytes of the text become cells carrying the text attributes and the hyperlink, and the
  rest of the display width is filled with empty cells carrying the fill attributes.
\<close>

definition inflate :: "TrivialLineBuffer \<Rightarrow> CompactCell list" where
  "inflate input =
     map (\<lambda>ch. \<lparr>cell_codepoint = of_char ch,
                 cell_extra = (if hyperlink input = 0 then None
                               else Some \<lparr>extra_codepoints = [], extra_hyperlink = hyperlink input\<rparr>),
                 cell_width = 1, cell_attributes = textAttributes input\<rparr>) (text input)
     @ replicate (nat (displayWidth input) - length (text input))
         \<lparr>cell_codepoint = 0, cell_extra = None, cell_width = 1,
          cell_attributes = fillAttributes input\<rparr>"

definition isTrivialBuffer :: "Line \<Rightarrow> bool" where
  "isTrivialBuffer l = (case line_storage l of Trivial _ \<Rightarrow> True | Inflated _ \<Rightarrow> False)"


definition setBuffer :: "LineStorage \<Rightarrow> Line \<Rightarrow> Line" where
  "setBuffer buffer l = l\<lparr>line_storage := buffer\<rparr>"

text \<open>
  \<^verbatim>\<open>Line::inflatedBuffer()\<close> returns a reference into the line after unpacking a trivial
  buffer in place. The model returns the cells together with the line as it is afterwards.
  The \<^verbatim>\<open>const\<close> overload casts the constness away and calls the same function.
\<close>

definition inflatedBuffer :: "Line \<Rightarrow> CompactCell list \<times> Line" where
  "inflatedBuffer l =
     (case line_storage l of
        Trivial t \<Rightarrow> (inflate t, l\<lparr>line_storage := Inflated (inflate t)\<rparr>)
      | Inflated cells \<Rightarrow> (cells, l))"

definition reset :: "LineFlags \<Rightarrow> GraphicsAttributes \<Rightarrow> Line \<Rightarrow> Line" where
  "reset flags attributes l =
     (let l = l\<lparr>line_flags := ucast flags\<rparr> in
      case line_storage l of
        Trivial t \<Rightarrow> l\<lparr>line_storage := Trivial (TrivialLineBuffer_reset attributes t)\<rparr>
      | Inflated _ \<Rightarrow>
          (let (cells, l) = inflatedBuffer l in
           setBuffer (Trivial (TrivialBuffer (int (length cells)) attributes)) l))"

definition reset_count :: "LineFlags \<Rightarrow> GraphicsAttributes \<Rightarrow> int \<Rightarrow> Line \<Rightarrow> Line" where
  \<comment> \<open>the overload \<^verbatim>\<open>reset(flags, attributes, count)\<close>\<close>
  "reset_count flags attributes count l =
     setBuffer (Trivial (TrivialBuffer count attributes)) (l\<lparr>line_flags := ucast flags\<rparr>)"

definition fill :: "LineFlags \<Rightarrow> GraphicsAttributes \<Rightarrow> char32_t \<Rightarrow> 8 word \<Rightarrow> Line \<Rightarrow> Line" where
  "fill flags attributes cp width l =
     (if cp = 0 then reset flags attributes l
      else
        (let l = l\<lparr>line_flags := ucast flags\<rparr>;
             (cells, l) = inflatedBuffer l
         in l\<lparr>line_storage :=
               Inflated (map (\<lambda>cell. Cell_write attributes cp width (Cell_reset cell)) cells)\<rparr>))"

fun all_cells_empty :: "CompactCell list \<Rightarrow> bool" where
  "all_cells_empty [] = True"
| "all_cells_empty (cell # cells) = (if \<not> Cell_empty cell then False else all_cells_empty cells)"

definition Line_empty :: "Line \<Rightarrow> bool" where
  "Line_empty l =
     (case line_storage l of
        Trivial t \<Rightarrow> text t = []
      | Inflated _ \<Rightarrow> all_cells_empty (fst (inflatedBuffer l)))"

text \<open>
  The overload \<^verbatim>\<open>fill(start, sgr, ascii)\<close>. The sum in the assertion is a sum of \<^verbatim>\<open>size_t\<close>
  values and wraps around; when it passes only by wrapping, the pointers \<^verbatim>\<open>i\<close> and \<^verbatim>\<open>e\<close>
  leave the buffer, which is an error of the model. Each character of the run is a
  \<^verbatim>\<open>char\<close> cast to \<^verbatim>\<open>char32_t\<close>; the cells after the run are reset.
\<close>

definition fill_ascii :: "int \<Rightarrow> GraphicsAttributes \<Rightarrow> string \<Rightarrow> Line \<Rightarrow> error + Line" where
  "fill_ascii start sgr ascii l =
     (let (buffer, l) = inflatedBuffer l in
      if \<not> ((to_size_t start + length ascii) mod nat size_t_max \<le> length buffer) then
        Inl AssertionFailed
      else if \<not> (to_size_t start + length ascii \<le> length buffer) then Inl OutOfRange
      else
        Inr (l\<lparr>line_storage := Inflated
               (take (to_size_t start) buffer
                @ map (\<lambda>(cell, ch). Cell_write sgr (char32_of_char ch) 1 cell)
                      (zip (drop (to_size_t start) buffer) ascii)
                @ map Cell_reset (drop (to_size_t start + length ascii) buffer))\<rparr>))"

definition Line_size :: "Line \<Rightarrow> int" where
  "Line_size l =
     (case line_storage l of
        Trivial t \<Rightarrow> displayWidth t
      | Inflated _ \<Rightarrow> int (length (fst (inflatedBuffer l))))"

definition Line_cells :: "Line \<Rightarrow> CompactCell list \<times> Line" where
  "Line_cells l = inflatedBuffer l"

definition setFlag :: "LineFlags \<Rightarrow> bool \<Rightarrow> Line \<Rightarrow> Line" where
  "setFlag flag enable l =
     (if enable then l\<lparr>line_flags := line_flags l OR ucast flag\<rparr>
      else l\<lparr>line_flags := line_flags l AND NOT (ucast flag)\<rparr>)"

definition cellWidthAt :: "int \<Rightarrow> Line \<Rightarrow> error + (8 word \<times> Line)" where
  \<comment> \<open>a \<^verbatim>\<open>const\<close> member that goes through \<^verbatim>\<open>inflatedBuffer().at(column)\<close>\<close>
  "cellWidthAt column l =
     (let (buffer, l) = inflatedBuffer l in
      if to_size_t column < length buffer then Inr (cell_width (buffer ! to_size_t column), l)
      else Inl OutOfRange)"

text \<open>
  \<^verbatim>\<open>useRange\<close> and \<^verbatim>\<open>useCellAt\<close> return references into the inflated buffer; the model
  returns the positions they refer to, and the line as it is afterwards. \<^verbatim>\<open>gsl::span::subspan\<close>
  expects the offset within the span and the count either \<^verbatim>\<open>dynamic_extent\<close> (the largest
  \<^verbatim>\<open>size_t\<close>) or within the rest; \<^verbatim>\<open>Require\<close> and \<^verbatim>\<open>Expects\<close> end the program when they fail.
  \<^verbatim>\<open>useCellAt\<close> reads \<^verbatim>\<open>size()\<close> before it inflates, and admits the position one past the last
  cell.
\<close>

definition useRange :: "int \<Rightarrow> int \<Rightarrow> Line \<Rightarrow> error + ((nat \<times> nat) \<times> Line)" where
  "useRange start count l =
     (let (buffer, l) = inflatedBuffer l;
          offset = to_size_t start;
          n = to_size_t count
      in if \<not> (offset \<le> length buffer
                \<and> (n = nat (size_t_max - 1) \<or> n \<le> length buffer - offset)) then
           Inl AssertionFailed
         else Inr ((offset, if n = nat (size_t_max - 1) then length buffer - offset else n), l))"

definition useCellAt :: "int \<Rightarrow> Line \<Rightarrow> error + (nat \<times> Line)" where
  "useCellAt column l =
     (if \<not> (0 \<le> column) then Inl AssertionFailed
      else if \<not> (column \<le> Line_size l) then Inl AssertionFailed
      else (let (buffer, l) = inflatedBuffer l in Inr (to_size_t column, l)))"

definition cellEmptyAt :: "int \<Rightarrow> Line \<Rightarrow> error + (bool \<times> Line)" where
  "cellEmptyAt column l =
     (case line_storage l of
        Trivial t \<Rightarrow>
          (if \<not> (0 \<le> column) then Inl AssertionFailed
           else if \<not> (column < Line_size l) then Inl AssertionFailed
           else Inr (to_size_t column \<ge> length (text t)
                     \<or> text t ! to_size_t column = CHR 0x20, l))
      | Inflated _ \<Rightarrow>
          (let (buffer, l) = inflatedBuffer l in
           if to_size_t column < length buffer then
             Inr (Cell_empty (buffer ! to_size_t column), l)
           else Inl OutOfRange))"

definition trivialBuffer :: "Line \<Rightarrow> error + TrivialLineBuffer" where
  \<comment> \<open>\<^verbatim>\<open>std::get<TrivialBuffer>\<close> throws when the storage holds the other alternative\<close>
  "trivialBuffer l =
     (case line_storage l of Trivial t \<Rightarrow> Inr t | Inflated _ \<Rightarrow> Inl BadVariantAccess)"

subsection \<open>Searching a line\<close>

text \<open>
  \<^verbatim>\<open>std::string_view::find(needle, pos)\<close> returns the lowest position from \<open>pos\<close> on at which
  the needle occurs, \<^verbatim>\<open>rfind(needle, pos)\<close> the highest position up to \<open>pos\<close>; \<open>None\<close> stands
  for \<^verbatim>\<open>npos\<close>. \<^verbatim>\<open>substr(pos)\<close> throws \<^verbatim>\<open>std::out_of_range\<close> for a position beyond the end.
\<close>

definition occurs_at :: "string \<Rightarrow> string \<Rightarrow> nat \<Rightarrow> bool" where
  "occurs_at hay needle p = (p + length needle \<le> length hay \<and> take (length needle) (drop p hay) = needle)"

function sv_find :: "string \<Rightarrow> string \<Rightarrow> nat \<Rightarrow> nat option" where
  "sv_find hay needle pos =
     (if length hay < pos + length needle then None
      else if occurs_at hay needle pos then Some pos
      else sv_find hay needle (pos + 1))"
  by pat_completeness auto
termination
  by (relation "measure (\<lambda>(hay, needle, pos). length hay + 1 - pos)") auto

declare sv_find.simps [simp del]

fun sv_rfind_down :: "string \<Rightarrow> string \<Rightarrow> nat \<Rightarrow> nat option" where
  "sv_rfind_down hay needle 0 = (if occurs_at hay needle 0 then Some 0 else None)"
| "sv_rfind_down hay needle (Suc p) =
     (if occurs_at hay needle (Suc p) then Some (Suc p) else sv_rfind_down hay needle p)"

definition sv_rfind :: "string \<Rightarrow> string \<Rightarrow> nat \<Rightarrow> nat option" where
  "sv_rfind hay needle pos =
     (if length hay < length needle then None
      else sv_rfind_down hay needle (min pos (length hay - length needle)))"

definition sv_substr :: "string \<Rightarrow> nat \<Rightarrow> error + string" where
  "sv_substr s pos = (if length s < pos then Inl OutOfRange else Inr (drop pos s))"

text \<open>
  \<^verbatim>\<open>SearchResult\<close> is declared in primitives.h, which is not among the sources: a column
  and the length of a partial match, 0 for a full match.
\<close>

record SearchResult =
  column :: int
  partialMatchLength :: nat

text \<open>
  Modelled from the spec: \<^verbatim>\<open>CellUtil::beginsWith\<close> (CellUtil.h is not among the sources).
  Inflated lines are matched by per-cell codepoint comparison: the text begins with a cell
  when the cell is not empty and its codepoints are the first codepoints of the text.
\<close>

definition beginsWith :: "char32_t list \<Rightarrow> CompactCell \<Rightarrow> bool" where
  "beginsWith txt cell =
     (codepoints cell \<noteq> [] \<and> length (codepoints cell) \<le> length txt \<and>
      take (length (codepoints cell)) txt = codepoints cell)"

text \<open>
  The loop of the inflated branch of \<^verbatim>\<open>matchTextAt\<close>: \<open>i\<close> runs over the text; reading a
  cell outside the buffer is an error.
\<close>

function matchTextAt_loop ::
  "char32_t list \<Rightarrow> CompactCell list \<Rightarrow> nat \<Rightarrow> nat \<Rightarrow> error + bool" where
  "matchTextAt_loop txt cells baseColumn i =
     (if i < length txt then
        (if \<not> (baseColumn + i < length cells) then Inl OutOfRange
         else if \<not> beginsWith (drop i txt) (cells ! (baseColumn + i)) then Inr False
         else matchTextAt_loop txt cells baseColumn (i + 1))
      else Inr (i = length txt))"
  by pat_completeness auto
termination
  by (relation "measure (\<lambda>(txt, cells, baseColumn, i). length txt - i)") auto

declare matchTextAt_loop.simps [simp del]

definition matchTextAt :: "char32_t list \<Rightarrow> int \<Rightarrow> Line \<Rightarrow> error + bool" where
  "matchTextAt txt startColumn l =
     (case line_storage l of
        Trivial buffer \<Rightarrow>
          (let u8Text = convert_to_string txt in
           if usedColumns buffer = 0 then Inr False
           else
             (let column = min startColumn (usedColumns buffer - 1) in
              if length txt > to_size_t (column - usedColumns buffer) then Inr False
              else
                (case sv_substr (text buffer) (to_size_t column) of
                   Inl e \<Rightarrow> Inl e
                 | Inr rest \<Rightarrow> Inr (sv_find rest u8Text (to_size_t column) = Some 0))))
      | Inflated cells \<Rightarrow>
          (if length txt > size_t_sub (to_size_t (Line_size l)) (to_size_t startColumn) then Inr False
           else matchTextAt_loop txt cells (to_size_t startColumn) 0))"

text \<open>
  The loop of the inflated branch of \<^verbatim>\<open>search\<close>. The text is shortened in place by
  \<^verbatim>\<open>remove_suffix\<close> once the rest of the line is shorter than it.
\<close>

function search_loop ::
  "Line \<Rightarrow> CompactCell list \<Rightarrow> int \<Rightarrow> char32_t list \<Rightarrow> int \<Rightarrow> error + SearchResult option" where
  "search_loop l buffer startColumn txt baseColumn =
     (if baseColumn < int (length buffer) then
        (if size_t_sub (length buffer) (to_size_t baseColumn) < length txt then
           (let txt = take (length txt
                            - size_t_sub (length txt)
                                (size_t_sub (to_size_t (Line_size l)) (to_size_t baseColumn))) txt
            in case matchTextAt txt baseColumn l of
                 Inl e \<Rightarrow> Inl e
               | Inr matched \<Rightarrow>
                   if matched then
                     Inr (Some \<lparr>column = startColumn, partialMatchLength = length txt\<rparr>)
                   else search_loop l buffer startColumn txt (baseColumn + 1))
         else
           (case matchTextAt txt baseColumn l of
              Inl e \<Rightarrow> Inl e
            | Inr matched \<Rightarrow>
                if matched then Inr (Some \<lparr>column = baseColumn, partialMatchLength = 0\<rparr>)
                else search_loop l buffer startColumn txt (baseColumn + 1)))
      else Inr None)"
  by pat_completeness auto
termination
  by (relation "measure (\<lambda>(l, buffer, startColumn, txt, baseColumn). nat (int (length buffer) - baseColumn))")
     auto

declare search_loop.simps [simp del]

definition search :: "char32_t list \<Rightarrow> int \<Rightarrow> Line \<Rightarrow> error + SearchResult option" where
  "search txt startColumn l =
     (case line_storage l of
        Trivial buffer \<Rightarrow>
          (let u8Text = convert_to_string txt in
           if usedColumns buffer = 0 then Inr None
           else
             (let column = min startColumn (usedColumns buffer - 1) in
              case sv_find (text buffer) u8Text (to_size_t column) of
                Some resultIndex \<Rightarrow> Inr (Some \<lparr>column = int resultIndex, partialMatchLength = 0\<rparr>)
              | None \<Rightarrow> Inr None))
      | Inflated buffer \<Rightarrow>
          (if length buffer < length txt then Inr None
           else search_loop l buffer startColumn txt startColumn))"

text \<open>
  The two loops of the inflated branch of \<^verbatim>\<open>searchReverse\<close>: first full matches from the
  start column down to column 0, then ever shorter suffixes of the text at column 0.
\<close>

function searchReverse_full :: "Line \<Rightarrow> char32_t list \<Rightarrow> int \<Rightarrow> error + int option" where
  "searchReverse_full l txt baseColumn =
     (if baseColumn \<ge> 0 then
        (case matchTextAt txt baseColumn l of
           Inl e \<Rightarrow> Inl e
         | Inr matched \<Rightarrow>
             if matched then Inr (Some baseColumn)
             else searchReverse_full l txt (baseColumn - 1))
      else Inr None)"
  by pat_completeness auto
termination
  by (relation "measure (\<lambda>(l, txt, baseColumn). nat (baseColumn + 1))") auto

declare searchReverse_full.simps [simp del]

fun searchReverse_partial :: "Line \<Rightarrow> int \<Rightarrow> char32_t list \<Rightarrow> error + SearchResult option" where
  "searchReverse_partial l startColumn [] = Inr None"
| "searchReverse_partial l startColumn (c # cs) =
     (case matchTextAt (c # cs) 0 l of
        Inl e \<Rightarrow> Inl e
      | Inr matched \<Rightarrow>
          if matched then
            Inr (Some \<lparr>column = startColumn, partialMatchLength = length (c # cs)\<rparr>)
          else searchReverse_partial l startColumn cs)"

definition searchReverse :: "char32_t list \<Rightarrow> int \<Rightarrow> Line \<Rightarrow> error + SearchResult option" where
  "searchReverse txt startColumn l =
     (case line_storage l of
        Trivial buffer \<Rightarrow>
          (let u8Text = convert_to_string txt in
           if usedColumns buffer = 0 then Inr None
           else
             (let column = min startColumn (usedColumns buffer - 1) in
              case sv_rfind (text buffer) u8Text (to_size_t column) of
                Some resultIndex \<Rightarrow> Inr (Some \<lparr>column = int resultIndex, partialMatchLength = 0\<rparr>)
              | None \<Rightarrow> Inr None))
      | Inflated buffer \<Rightarrow>
          (if length buffer < length txt then Inr None
           else
             (case searchReverse_full l txt (min startColumn (int (length buffer - length txt))) of
                Inl e \<Rightarrow> Inl e
              | Inr (Some baseColumn) \<Rightarrow> Inr (Some \<lparr>column = baseColumn, partialMatchLength = 0\<rparr>)
              | Inr None \<Rightarrow> searchReverse_partial l startColumn txt)))"

subsection \<open>The members of a line as operations\<close>

text \<open>
  One constructor for every member function that Line.h defines with a body, so that a
  statement can range over all of them; \<open>apply_op\<close> gives the line as the call leaves it, or
  the error that ends it. \<open>OpReadFlags\<close> stands for the members that only read the flags
  or the kind of storage (\<^verbatim>\<open>flags\<close>, \<^verbatim>\<open>marked\<close>, \<^verbatim>\<open>wrapped\<close>, \<^verbatim>\<open>wrappable\<close>, the three flag
  getters, \<^verbatim>\<open>inheritableFlags\<close>, \<^verbatim>\<open>isFlagEnabled\<close>, \<^verbatim>\<open>isTrivialBuffer\<close>,
  \<^verbatim>\<open>isInflatedBuffer\<close>), \<open>OpSetFlag\<close> also for \<^verbatim>\<open>setMarked\<close>, \<^verbatim>\<open>setWrapped\<close> and
  \<^verbatim>\<open>setWrappable\<close>, which call \<^verbatim>\<open>setFlag\<close>. The members that Line.h only declares
  (\<^verbatim>\<open>resize\<close>, \<^verbatim>\<open>reflow\<close>, \<^verbatim>\<open>trim_blank_right\<close>, \<^verbatim>\<open>toUtf8\<close>, \<^verbatim>\<open>toUtf8Trimmed\<close>) are not among
  the sources.
\<close>

datatype LineOp =
    OpReset LineFlags GraphicsAttributes
  | OpResetCount LineFlags GraphicsAttributes int
  | OpFill LineFlags GraphicsAttributes char32_t "8 word"
  | OpFillAscii int GraphicsAttributes string
  | OpEmpty
  | OpSize
  | OpCells
  | OpUseRange int int
  | OpUseCellAt int
  | OpCellEmptyAt int
  | OpCellWidthAt int
  | OpReadFlags
  | OpSetFlag LineFlags bool
  | OpInflatedBuffer
  | OpTrivialBuffer
  | OpSetBuffer LineStorage
  | OpMatchTextAt "char32_t list" int
  | OpSearch "char32_t list" int
  | OpSearchReverse "char32_t list" int

definition after_const :: "Line \<Rightarrow> Line" where
  \<comment> \<open>the line after a \<^verbatim>\<open>const\<close> member that reads a trivial buffer in place and calls
      \<^verbatim>\<open>inflatedBuffer()\<close> otherwise\<close>
  "after_const l =
     (case line_storage l of Trivial _ \<Rightarrow> l | Inflated _ \<Rightarrow> snd (inflatedBuffer l))"

definition line_after :: "error + ('a \<times> Line) \<Rightarrow> error + Line" where
  "line_after r = (case r of Inl e \<Rightarrow> Inl e | Inr (x, l) \<Rightarrow> Inr l)"

definition const_after :: "error + 'a \<Rightarrow> Line \<Rightarrow> error + Line" where
  "const_after r l = (case r of Inl e \<Rightarrow> Inl e | Inr x \<Rightarrow> Inr (after_const l))"

fun apply_op :: "LineOp \<Rightarrow> Line \<Rightarrow> error + Line" where
  "apply_op (OpReset flags attributes) l = Inr (reset flags attributes l)"
| "apply_op (OpResetCount flags attributes count) l = Inr (reset_count flags attributes count l)"
| "apply_op (OpFill flags attributes cp width) l = Inr (fill flags attributes cp width l)"
| "apply_op (OpFillAscii start sgr ascii) l = fill_ascii start sgr ascii l"
| "apply_op OpEmpty l = Inr (after_const l)"
| "apply_op OpSize l = Inr (after_const l)"
| "apply_op OpCells l = Inr (snd (Line_cells l))"
| "apply_op (OpUseRange start count) l = line_after (useRange start count l)"
| "apply_op (OpUseCellAt col) l = line_after (useCellAt col l)"
| "apply_op (OpCellEmptyAt col) l = line_after (cellEmptyAt col l)"
| "apply_op (OpCellWidthAt col) l = line_after (cellWidthAt col l)"
| "apply_op OpReadFlags l = Inr l"
| "apply_op (OpSetFlag flag enable) l = Inr (setFlag flag enable l)"
| "apply_op OpInflatedBuffer l = Inr (snd (inflatedBuffer l))"
| "apply_op OpTrivialBuffer l = const_after (trivialBuffer l) l"
| "apply_op (OpSetBuffer buffer) l = Inr (setBuffer buffer l)"
| "apply_op (OpMatchTextAt txt startColumn) l = const_after (matchTextAt txt startColumn l) l"
| "apply_op (OpSearch txt startColumn) l = const_after (search txt startColumn l) l"
| "apply_op (OpSearchReverse txt startColumn) l = const_after (searchReverse txt startColumn l) l"


fun installs :: "LineOp \<Rightarrow> bool" where
  "installs (OpSetBuffer buffer) = True"
| "installs op = False"


section \<open>The function table (vtbackend/Functions.h)\<close>

datatype FunctionCategory = C0 | ESC | CSI | OSC | DCS

definition category_int :: "FunctionCategory \<Rightarrow> int" where
  \<comment> \<open>the enumerators' values, as \<^verbatim>\<open>static_cast<int>(category)\<close> reads them\<close>
  "category_int c = (case c of C0 \<Rightarrow> 0 | ESC \<Rightarrow> 1 | CSI \<Rightarrow> 2 | OSC \<Rightarrow> 3 | DCS \<Rightarrow> 4)"

text \<open>
  \<^verbatim>\<open>VTType\<close> and \<^verbatim>\<open>VTExtension\<close> are declared in VTType.h, which is not among the sources;
  these are the enumerators the table uses.
\<close>

datatype VTType = VT100 | VT220 | VT240 | VT320 | VT330 | VT340 | VT420 | VT510 | VT520 | VT525

datatype VTExtension = VTExtension_None | Unknown | XTerm | Contour

text \<open>
  \<^verbatim>\<open>minimumParameters\<close> is a \<^verbatim>\<open>uint8_t\<close> and \<^verbatim>\<open>maximumParameters\<close> a \<^verbatim>\<open>uint16_t\<close>; the
  code only compares them after promotion to \<^verbatim>\<open>int\<close>. The description text of a
  definition is left out: no function reads it.
\<close>

record FunctionDefinition =
  category :: FunctionCategory
  leader :: char
  intermediate :: char
  finalSymbol :: char
  minimumParameters :: nat
  maximumParameters :: nat
  conformanceLevel :: VTType
  extension :: VTExtension
  mnemonic :: string

record FunctionSelector =
  sel_category :: FunctionCategory
  sel_leader :: char
  sel_argc :: int
  sel_intermediate :: char
  sel_finalSymbol :: char

definition compare_definitions :: "FunctionDefinition \<Rightarrow> FunctionDefinition \<Rightarrow> int" where
  \<comment> \<open>the overload \<^verbatim>\<open>compare(FunctionDefinition, FunctionDefinition)\<close>\<close>
  "compare_definitions a b =
     (if category a \<noteq> category b then category_int (category a) - category_int (category b)
      else if finalSymbol a \<noteq> finalSymbol b then char_int (finalSymbol a) - char_int (finalSymbol b)
      else if leader a \<noteq> leader b then char_int (leader a) - char_int (leader b)
      else if intermediate a \<noteq> intermediate b then
        char_int (intermediate a) - char_int (intermediate b)
      else if minimumParameters a \<noteq> minimumParameters b then
        int (minimumParameters a) - int (minimumParameters b)
      else int (maximumParameters a) - int (maximumParameters b))"

definition compare :: "FunctionSelector \<Rightarrow> FunctionDefinition \<Rightarrow> int" where
  \<comment> \<open>the overload \<^verbatim>\<open>compare(FunctionSelector, FunctionDefinition)\<close>\<close>
  "compare a b =
     (if sel_category a \<noteq> category b then
        category_int (sel_category a) - category_int (category b)
      else if sel_finalSymbol a \<noteq> finalSymbol b then
        char_int (sel_finalSymbol a) - char_int (finalSymbol b)
      else if sel_leader a \<noteq> leader b then char_int (sel_leader a) - char_int (leader b)
      else if sel_intermediate a \<noteq> intermediate b then
        char_int (sel_intermediate a) - char_int (intermediate b)
      else if sel_category a = OSC then sel_argc a - int (maximumParameters b)
      else if sel_argc a < int (minimumParameters b) then - 1
      else if sel_argc a > int (maximumParameters b) then 1
      else 0)"

definition value_or_0 :: "char option \<Rightarrow> char" where
  "value_or_0 c = (case c of Some x \<Rightarrow> x | None \<Rightarrow> CHR 0x00)"

definition detail_C0 :: "char \<Rightarrow> string \<Rightarrow> VTType \<Rightarrow> FunctionDefinition" where
  "detail_C0 finalCharacter name vt =
     \<lparr>category = C0, leader = CHR 0x00, intermediate = CHR 0x00, finalSymbol = finalCharacter,
      minimumParameters = 0, maximumParameters = 0, conformanceLevel = vt,
      extension = VTExtension_None, mnemonic = name\<rparr>"

definition detail_OSC :: "nat \<Rightarrow> VTExtension \<Rightarrow> string \<Rightarrow> FunctionDefinition" where
  "detail_OSC code ext name =
     \<lparr>category = OSC, leader = CHR 0x00, intermediate = CHR 0x00, finalSymbol = CHR 0x00,
      minimumParameters = 0, maximumParameters = code, conformanceLevel = VT100,
      extension = ext, mnemonic = name\<rparr>"

definition detail_ESC :: "char option \<Rightarrow> char \<Rightarrow> VTType \<Rightarrow> string \<Rightarrow> FunctionDefinition" where
  "detail_ESC interm finalCharacter vt name =
     \<lparr>category = ESC, leader = CHR 0x00, intermediate = value_or_0 interm,
      finalSymbol = finalCharacter, minimumParameters = 0, maximumParameters = 0,
      conformanceLevel = vt, extension = VTExtension_None, mnemonic = name\<rparr>"

definition detail_CSI_vt ::
  "char option \<Rightarrow> nat \<Rightarrow> nat \<Rightarrow> char option \<Rightarrow> char \<Rightarrow> VTType \<Rightarrow> string \<Rightarrow> FunctionDefinition" where
  "detail_CSI_vt lead argc0 argc1 interm finalCharacter vt name =
     \<lparr>category = CSI, leader = value_or_0 lead, intermediate = value_or_0 interm,
      finalSymbol = finalCharacter, minimumParameters = argc0, maximumParameters = argc1,
      conformanceLevel = vt, extension = VTExtension_None, mnemonic = name\<rparr>"

definition detail_CSI_ext ::
  "char option \<Rightarrow> nat \<Rightarrow> nat \<Rightarrow> char option \<Rightarrow> char \<Rightarrow> VTExtension \<Rightarrow> string \<Rightarrow> FunctionDefinition" where
  "detail_CSI_ext lead argc0 argc1 interm finalCharacter ext name =
     \<lparr>category = CSI, leader = value_or_0 lead, intermediate = value_or_0 interm,
      finalSymbol = finalCharacter, minimumParameters = argc0, maximumParameters = argc1,
      conformanceLevel = VT100, extension = ext, mnemonic = name\<rparr>"

definition detail_DCS_vt ::
  "char option \<Rightarrow> nat \<Rightarrow> nat \<Rightarrow> char option \<Rightarrow> char \<Rightarrow> VTType \<Rightarrow> string \<Rightarrow> FunctionDefinition" where
  "detail_DCS_vt lead argc0 argc1 interm finalCharacter vt name =
     \<lparr>category = DCS, leader = value_or_0 lead, intermediate = value_or_0 interm,
      finalSymbol = finalCharacter, minimumParameters = argc0, maximumParameters = argc1,
      conformanceLevel = vt, extension = VTExtension_None, mnemonic = name\<rparr>"

definition detail_DCS_ext ::
  "char option \<Rightarrow> nat \<Rightarrow> nat \<Rightarrow> char option \<Rightarrow> char \<Rightarrow> VTExtension \<Rightarrow> string \<Rightarrow> FunctionDefinition" where
  "detail_DCS_ext lead argc0 argc1 interm finalCharacter ext name =
     \<lparr>category = DCS, leader = value_or_0 lead, intermediate = value_or_0 interm,
      finalSymbol = finalCharacter, minimumParameters = argc0, maximumParameters = argc1,
      conformanceLevel = VT100, extension = ext, mnemonic = name\<rparr>"

subsection \<open>The registered functions (\<^verbatim>\<open>ArgsMax\<close> is 127)\<close>

definition EOT :: FunctionDefinition where
  "EOT = detail_C0 (CHR 0x04) ''EOT'' VT100"

definition BEL :: FunctionDefinition where
  "BEL = detail_C0 (CHR 0x07) ''BEL'' VT100"

definition BS :: FunctionDefinition where
  "BS = detail_C0 (CHR 0x08) ''BS'' VT100"

definition TAB :: FunctionDefinition where
  "TAB = detail_C0 (CHR 0x09) ''TAB'' VT100"

definition LF :: FunctionDefinition where
  "LF = detail_C0 (CHR 0x0A) ''LF'' VT100"

definition VT :: FunctionDefinition where
  "VT = detail_C0 (CHR 0x0B) ''VT'' VT100"

definition FF :: FunctionDefinition where
  "FF = detail_C0 (CHR 0x0C) ''FF'' VT100"

definition CR :: FunctionDefinition where
  "CR = detail_C0 (CHR 0x0D) ''CR'' VT100"

definition LS1 :: FunctionDefinition where
  "LS1 = detail_C0 (CHR 0x0E) ''LS1'' VT220"

definition LS0 :: FunctionDefinition where
  "LS0 = detail_C0 (CHR 0x0F) ''LS0'' VT220"

definition SCS_G0_SPECIAL :: FunctionDefinition where
  "SCS_G0_SPECIAL = detail_ESC (Some (CHR ''('')) (CHR ''0'') VT100 ''SCS_G0_SPECIAL''"

definition SCS_G0_USASCII :: FunctionDefinition where
  "SCS_G0_USASCII = detail_ESC (Some (CHR ''('')) (CHR ''B'') VT100 ''SCS_G0_USASCII''"

definition SCS_G1_SPECIAL :: FunctionDefinition where
  "SCS_G1_SPECIAL = detail_ESC (Some (CHR '')'')) (CHR ''0'') VT100 ''SCS_G1_SPECIAL''"

definition SCS_G1_USASCII :: FunctionDefinition where
  "SCS_G1_USASCII = detail_ESC (Some (CHR '')'')) (CHR ''B'') VT100 ''SCS_G1_USASCII''"

definition DECALN :: FunctionDefinition where
  "DECALN = detail_ESC (Some (CHR ''#'')) (CHR ''8'') VT100 ''DECALN''"

definition DECBI :: FunctionDefinition where
  "DECBI = detail_ESC None (CHR ''6'') VT100 ''DECBI''"

definition DECFI :: FunctionDefinition where
  "DECFI = detail_ESC None (CHR ''9'') VT100 ''DECFI''"

definition DECKPAM :: FunctionDefinition where
  "DECKPAM = detail_ESC None (CHR ''='') VT100 ''DECKPAM''"

definition DECKPNM :: FunctionDefinition where
  "DECKPNM = detail_ESC None (CHR ''>'') VT100 ''DECKPNM''"

definition DECRS :: FunctionDefinition where
  "DECRS = detail_ESC None (CHR ''8'') VT100 ''DECRS''"

definition DECSC :: FunctionDefinition where
  "DECSC = detail_ESC None (CHR ''7'') VT100 ''DECSC''"

definition HTS :: FunctionDefinition where
  "HTS = detail_ESC None (CHR ''H'') VT100 ''HTS''"

definition IND :: FunctionDefinition where
  "IND = detail_ESC None (CHR ''D'') VT100 ''IND''"

definition NEL :: FunctionDefinition where
  "NEL = detail_ESC None (CHR ''E'') VT100 ''NEL''"

definition RI :: FunctionDefinition where
  "RI = detail_ESC None (CHR ''M'') VT100 ''RI''"

definition RIS :: FunctionDefinition where
  "RIS = detail_ESC None (CHR ''c'') VT100 ''RIS''"

definition SS2 :: FunctionDefinition where
  "SS2 = detail_ESC None (CHR ''N'') VT220 ''SS2''"

definition SS3 :: FunctionDefinition where
  "SS3 = detail_ESC None (CHR ''O'') VT220 ''SS3''"

definition ANSISYSSC :: FunctionDefinition where
  "ANSISYSSC = detail_CSI_vt None 0 0 None (CHR ''u'') VT100 ''ANSISYSSC''"

definition CBT :: FunctionDefinition where
  "CBT = detail_CSI_vt None 0 1 None (CHR ''Z'') VT100 ''CBT''"

definition CHA :: FunctionDefinition where
  "CHA = detail_CSI_vt None 0 1 None (CHR ''G'') VT100 ''CHA''"

definition CHT :: FunctionDefinition where
  "CHT = detail_CSI_vt None 0 1 None (CHR ''I'') VT100 ''CHT''"

definition CNL :: FunctionDefinition where
  "CNL = detail_CSI_vt None 0 1 None (CHR ''E'') VT100 ''CNL''"

definition CPL :: FunctionDefinition where
  "CPL = detail_CSI_vt None 0 1 None (CHR ''F'') VT100 ''CPL''"

definition CPR :: FunctionDefinition where
  "CPR = detail_CSI_vt None 1 1 None (CHR ''n'') VT100 ''CPR''"

definition CUB :: FunctionDefinition where
  "CUB = detail_CSI_vt None 0 1 None (CHR ''D'') VT100 ''CUB''"

definition CUD :: FunctionDefinition where
  "CUD = detail_CSI_vt None 0 1 None (CHR ''B'') VT100 ''CUD''"

definition CUF :: FunctionDefinition where
  "CUF = detail_CSI_vt None 0 1 None (CHR ''C'') VT100 ''CUF''"

definition CUP :: FunctionDefinition where
  "CUP = detail_CSI_vt None 0 2 None (CHR ''H'') VT100 ''CUP''"

definition CUU :: FunctionDefinition where
  "CUU = detail_CSI_vt None 0 1 None (CHR ''A'') VT100 ''CUU''"

definition DA1 :: FunctionDefinition where
  "DA1 = detail_CSI_vt None 0 1 None (CHR ''c'') VT100 ''DA1''"

definition DA2 :: FunctionDefinition where
  "DA2 = detail_CSI_vt (Some (CHR ''>'')) 0 1 None (CHR ''c'') VT100 ''DA2''"

definition DA3 :: FunctionDefinition where
  "DA3 = detail_CSI_vt (Some (CHR ''='')) 0 1 None (CHR ''c'') VT100 ''DA3''"

definition DCH :: FunctionDefinition where
  "DCH = detail_CSI_vt None 0 1 None (CHR ''P'') VT100 ''DCH''"

definition DECCARA :: FunctionDefinition where
  "DECCARA = detail_CSI_vt None 5 127 (Some (CHR ''$'')) (CHR ''r'') VT420 ''DECCARA''"

definition DECCRA :: FunctionDefinition where
  "DECCRA = detail_CSI_vt None 0 8 (Some (CHR ''$'')) (CHR ''v'') VT420 ''DECCRA''"

definition DECERA :: FunctionDefinition where
  "DECERA = detail_CSI_vt None 0 4 (Some (CHR ''$'')) (CHR ''z'') VT420 ''DECERA''"

definition DECFRA :: FunctionDefinition where
  "DECFRA = detail_CSI_vt None 0 4 (Some (CHR ''$'')) (CHR ''x'') VT420 ''DECFRA''"

definition DECDC :: FunctionDefinition where
  "DECDC = detail_CSI_vt None 0 1 (Some (CHR 0x27)) (CHR ''~'') VT420 ''DECDC''"

definition DECIC :: FunctionDefinition where
  "DECIC = detail_CSI_vt None 0 1 (Some (CHR 0x27)) (CHR ''}'') VT420 ''DECIC''"

definition DECSCA :: FunctionDefinition where
  "DECSCA = detail_CSI_vt None 0 1 (Some (CHR 0x22)) (CHR ''q'') VT240 ''DECSCA''"

definition DECSED :: FunctionDefinition where
  "DECSED = detail_CSI_vt (Some (CHR ''?'')) 0 1 None (CHR ''J'') VT240 ''DECSED''"

definition DECSERA :: FunctionDefinition where
  "DECSERA = detail_CSI_vt None 0 4 (Some (CHR ''$'')) (CHR ''{'') VT240 ''DECSERA''"

definition DECSEL :: FunctionDefinition where
  "DECSEL = detail_CSI_vt (Some (CHR ''?'')) 0 1 None (CHR ''K'') VT240 ''DECSEL''"

definition XTRESTORE :: FunctionDefinition where
  "XTRESTORE = detail_CSI_ext (Some (CHR ''?'')) 0 127 None (CHR ''r'') XTerm ''XTRESTORE''"

definition XTSAVE :: FunctionDefinition where
  "XTSAVE = detail_CSI_ext (Some (CHR ''?'')) 0 127 None (CHR ''s'') XTerm ''XTSAVE''"

definition DECRM :: FunctionDefinition where
  "DECRM = detail_CSI_vt (Some (CHR ''?'')) 1 127 None (CHR ''l'') VT100 ''DECRM''"

definition DECRQM :: FunctionDefinition where
  "DECRQM = detail_CSI_vt (Some (CHR ''?'')) 1 1 (Some (CHR ''$'')) (CHR ''p'') VT100 ''DECRQM''"

definition DECRQM_ANSI :: FunctionDefinition where
  "DECRQM_ANSI = detail_CSI_vt None 1 1 (Some (CHR ''$'')) (CHR ''p'') VT100 ''DECRQM_ANSI''"

definition DECRQPSR :: FunctionDefinition where
  "DECRQPSR = detail_CSI_vt None 1 1 (Some (CHR ''$'')) (CHR ''w'') VT320 ''DECRQPSR''"

definition DECSCL :: FunctionDefinition where
  "DECSCL = detail_CSI_vt None 2 2 (Some (CHR 0x22)) (CHR ''p'') VT220 ''DECSCL''"

definition DECSCPP :: FunctionDefinition where
  "DECSCPP = detail_CSI_vt None 0 1 (Some (CHR ''$'')) (CHR ''|'') VT100 ''DECSCPP''"

definition DECSNLS :: FunctionDefinition where
  "DECSNLS = detail_CSI_vt None 0 1 (Some (CHR ''*'')) (CHR ''|'') VT420 ''DECSNLS''"

definition DECSCUSR :: FunctionDefinition where
  "DECSCUSR = detail_CSI_vt None 0 1 (Some (CHR '' '')) (CHR ''q'') VT520 ''DECSCUSR''"

definition DECSLRM :: FunctionDefinition where
  "DECSLRM = detail_CSI_vt None 2 2 None (CHR ''s'') VT420 ''DECSLRM''"

definition DECSM :: FunctionDefinition where
  "DECSM = detail_CSI_vt (Some (CHR ''?'')) 1 127 None (CHR ''h'') VT100 ''DECSM''"

definition DECSTBM :: FunctionDefinition where
  "DECSTBM = detail_CSI_vt None 0 2 None (CHR ''r'') VT100 ''DECSTBM''"

definition DECSTR :: FunctionDefinition where
  "DECSTR = detail_CSI_vt None 0 0 (Some (CHR ''!'')) (CHR ''p'') VT100 ''DECSTR''"

definition DECXCPR :: FunctionDefinition where
  "DECXCPR = detail_CSI_vt None 0 0 None (CHR ''6'') VT100 ''DECXCPR''"

definition DL :: FunctionDefinition where
  "DL = detail_CSI_vt None 0 1 None (CHR ''M'') VT100 ''DL''"

definition ECH :: FunctionDefinition where
  "ECH = detail_CSI_vt None 0 1 None (CHR ''X'') VT420 ''ECH''"

definition ED :: FunctionDefinition where
  "ED = detail_CSI_vt None 0 127 None (CHR ''J'') VT100 ''ED''"

definition EL :: FunctionDefinition where
  "EL = detail_CSI_vt None 0 1 None (CHR ''K'') VT100 ''EL''"

definition HPA :: FunctionDefinition where
  "HPA = detail_CSI_vt None 1 1 None (CHR 0x60) VT100 ''HPA''"

definition HPR :: FunctionDefinition where
  "HPR = detail_CSI_vt None 1 1 None (CHR ''a'') VT100 ''HPR''"

definition HVP :: FunctionDefinition where
  "HVP = detail_CSI_vt None 0 2 None (CHR ''f'') VT100 ''HVP''"

definition ICH :: FunctionDefinition where
  "ICH = detail_CSI_vt None 0 1 None (CHR ''@'') VT420 ''ICH''"

definition IL :: FunctionDefinition where
  "IL = detail_CSI_vt None 0 1 None (CHR ''L'') VT100 ''IL''"

definition REP :: FunctionDefinition where
  "REP = detail_CSI_vt None 1 1 None (CHR ''b'') VT100 ''REP''"

definition RM :: FunctionDefinition where
  "RM = detail_CSI_vt None 1 127 None (CHR ''l'') VT100 ''RM''"

definition SCOSC :: FunctionDefinition where
  "SCOSC = detail_CSI_vt None 0 0 None (CHR ''s'') VT100 ''SCOSC''"

definition SD :: FunctionDefinition where
  "SD = detail_CSI_vt None 0 1 None (CHR ''T'') VT100 ''SD''"

definition SETMARK :: FunctionDefinition where
  "SETMARK = detail_CSI_ext (Some (CHR ''>'')) 0 0 None (CHR ''M'') Contour ''XTSETMARK''"

definition SGR :: FunctionDefinition where
  "SGR = detail_CSI_vt None 0 127 None (CHR ''m'') VT100 ''SGR''"

definition SM :: FunctionDefinition where
  "SM = detail_CSI_vt None 1 127 None (CHR ''h'') VT100 ''SM''"

definition SU :: FunctionDefinition where
  "SU = detail_CSI_vt None 0 1 None (CHR ''S'') VT100 ''SU''"

definition TBC :: FunctionDefinition where
  "TBC = detail_CSI_vt None 0 1 None (CHR ''g'') VT100 ''TBC''"

definition VPA :: FunctionDefinition where
  "VPA = detail_CSI_vt None 0 1 None (CHR ''d'') VT100 ''VPA''"

definition WINMANIP :: FunctionDefinition where
  "WINMANIP = detail_CSI_ext None 1 3 None (CHR ''t'') XTerm ''WINMANIP''"

definition XTSMGRAPHICS :: FunctionDefinition where
  "XTSMGRAPHICS = detail_CSI_ext (Some (CHR ''?'')) 2 4 None (CHR ''S'') XTerm ''XTSMGRAPHICS''"

definition XTPOPCOLORS :: FunctionDefinition where
  "XTPOPCOLORS = detail_CSI_ext None 0 127 (Some (CHR ''#'')) (CHR ''Q'') XTerm ''XTPOPCOLORS''"

definition XTPUSHCOLORS :: FunctionDefinition where
  "XTPUSHCOLORS = detail_CSI_ext None 0 127 (Some (CHR ''#'')) (CHR ''P'') XTerm ''XTPUSHCOLORS''"

definition XTREPORTCOLORS :: FunctionDefinition where
  "XTREPORTCOLORS = detail_CSI_ext None 0 0 (Some (CHR ''#'')) (CHR ''R'') XTerm ''XTREPORTCOLORS''"

definition XTSHIFTESCAPE :: FunctionDefinition where
  "XTSHIFTESCAPE = detail_CSI_ext (Some (CHR ''>'')) 0 1 None (CHR ''s'') XTerm ''XTSHIFTESCAPE''"

definition XTVERSION :: FunctionDefinition where
  "XTVERSION = detail_CSI_ext (Some (CHR ''>'')) 0 1 None (CHR ''q'') XTerm ''XTVERSION''"

definition XTCAPTURE :: FunctionDefinition where
  "XTCAPTURE = detail_CSI_ext (Some (CHR ''>'')) 0 2 None (CHR ''t'') Contour ''XTCAPTURE''"

definition DECSSDT :: FunctionDefinition where
  "DECSSDT = detail_CSI_vt None 0 1 (Some (CHR ''$'')) (CHR ''~'') VT320 ''DECSSDT''"

definition DECSASD :: FunctionDefinition where
  "DECSASD = detail_CSI_vt None 0 1 (Some (CHR ''$'')) (CHR ''}'') VT420 ''DECSASD''"

definition DECPS :: FunctionDefinition where
  "DECPS = detail_CSI_vt None 3 18 (Some (CHR '','')) (CHR ''~'') VT520 ''DECPS''"

definition STP :: FunctionDefinition where
  "STP = detail_DCS_ext None 0 0 (Some (CHR ''$'')) (CHR ''p'') Contour ''XTSETPROFILE''"

definition DECRQSS :: FunctionDefinition where
  "DECRQSS = detail_DCS_vt None 0 0 (Some (CHR ''$'')) (CHR ''q'') VT420 ''DECRQSS''"

definition DECSIXEL :: FunctionDefinition where
  "DECSIXEL = detail_DCS_vt None 0 3 None (CHR ''q'') VT330 ''DECSIXEL''"

definition XTGETTCAP :: FunctionDefinition where
  "XTGETTCAP = detail_DCS_ext None 0 0 (Some (CHR ''+'')) (CHR ''q'') XTerm ''XTGETTCAP''"

definition SETTITLE :: FunctionDefinition where
  "SETTITLE = detail_OSC 0 XTerm ''SETINICON''"

definition SETICON :: FunctionDefinition where
  "SETICON = detail_OSC 1 XTerm ''SETWINICON''"

definition SETWINTITLE :: FunctionDefinition where
  "SETWINTITLE = detail_OSC 2 XTerm ''SETWINTITLE''"

definition SETXPROP :: FunctionDefinition where
  "SETXPROP = detail_OSC 3 XTerm ''SETXPROP''"

definition SETCOLPAL :: FunctionDefinition where
  "SETCOLPAL = detail_OSC 4 XTerm ''SETCOLPAL''"

definition SETCWD :: FunctionDefinition where
  "SETCWD = detail_OSC 7 XTerm ''SETCWD''"

definition HYPERLINK :: FunctionDefinition where
  "HYPERLINK = detail_OSC 8 Unknown ''HYPERLINK''"

definition COLORFG :: FunctionDefinition where
  "COLORFG = detail_OSC 10 XTerm ''COLORFG''"

definition COLORBG :: FunctionDefinition where
  "COLORBG = detail_OSC 11 XTerm ''COLORBG''"

definition COLORCURSOR :: FunctionDefinition where
  "COLORCURSOR = detail_OSC 12 XTerm ''COLORCURSOR''"

definition COLORMOUSEFG :: FunctionDefinition where
  "COLORMOUSEFG = detail_OSC 13 XTerm ''COLORMOUSEFG''"

definition COLORMOUSEBG :: FunctionDefinition where
  "COLORMOUSEBG = detail_OSC 14 XTerm ''COLORMOUSEBG''"

definition SETFONT :: FunctionDefinition where
  "SETFONT = detail_OSC 50 XTerm ''SETFONT''"

definition SETFONTALL :: FunctionDefinition where
  "SETFONTALL = detail_OSC 60 Contour ''SETFONTALL''"

definition CLIPBOARD :: FunctionDefinition where
  "CLIPBOARD = detail_OSC 52 XTerm ''CLIPBOARD''"

definition RCOLPAL :: FunctionDefinition where
  "RCOLPAL = detail_OSC 104 XTerm ''RCOLPAL''"

definition COLORSPECIAL :: FunctionDefinition where
  "COLORSPECIAL = detail_OSC 106 XTerm ''COLORSPECIAL''"

definition RCOLORFG :: FunctionDefinition where
  "RCOLORFG = detail_OSC 110 XTerm ''RCOLORFG''"

definition RCOLORBG :: FunctionDefinition where
  "RCOLORBG = detail_OSC 111 XTerm ''RCOLORBG''"

definition RCOLORCURSOR :: FunctionDefinition where
  "RCOLORCURSOR = detail_OSC 112 XTerm ''RCOLORCURSOR''"

definition RCOLORMOUSEFG :: FunctionDefinition where
  "RCOLORMOUSEFG = detail_OSC 113 XTerm ''RCOLORMOUSEFG''"

definition RCOLORMOUSEBG :: FunctionDefinition where
  "RCOLORMOUSEBG = detail_OSC 114 XTerm ''RCOLORMOUSEBG''"

definition RCOLORHIGHLIGHTFG :: FunctionDefinition where
  "RCOLORHIGHLIGHTFG = detail_OSC 119 XTerm ''RCOLORHIGHLIGHTFG''"

definition RCOLORHIGHLIGHTBG :: FunctionDefinition where
  "RCOLORHIGHLIGHTBG = detail_OSC 117 XTerm ''RCOLORHIGHLIGHTBG''"

definition NOTIFY :: FunctionDefinition where
  "NOTIFY = detail_OSC 777 XTerm ''NOTIFY''"

definition DUMPSTATE :: FunctionDefinition where
  "DUMPSTATE = detail_OSC 888 Contour ''DUMPSTATE''"

definition functions_array :: "FunctionDefinition list" where
  \<comment> \<open>the array literal of \<^verbatim>\<open>functions()\<close>, in the order the source lists it\<close>
  "functions_array =
   [EOT, BEL, BS, TAB, LF, VT, FF, CR, LS0, LS1, DECALN, DECBI, DECFI, DECKPAM, DECKPNM,
      DECRS, DECSC, HTS, IND, NEL, RI, RIS, SCS_G0_SPECIAL, SCS_G0_USASCII, SCS_G1_SPECIAL,
      SCS_G1_USASCII, SS2, SS3, ANSISYSSC, XTCAPTURE, CBT, CHA, CHT, CNL, CPL, CPR, CUB,
      CUD, CUF, CUP, CUU, DA1, DA2, DA3, DCH, DECCARA, DECCRA, DECDC, DECERA, DECFRA,
      DECIC, DECSCA, DECSED, DECSERA, DECSEL, XTRESTORE, XTSAVE, DECPS, DECRM, DECRQM,
      DECRQM_ANSI, DECRQPSR, DECSASD, DECSCL, DECSCPP, DECSCUSR, DECSLRM, DECSM, DECSNLS,
      DECSSDT, DECSTBM, DECSTR, DECXCPR, DL, ECH, ED, EL, HPA, HPR, HVP, ICH, IL, REP, RM,
      SCOSC, SD, SETMARK, SGR, SM, SU, TBC, VPA, WINMANIP, XTPOPCOLORS, XTPUSHCOLORS,
      XTREPORTCOLORS, XTSHIFTESCAPE, XTSMGRAPHICS, XTVERSION, STP, DECRQSS, DECSIXEL,
      XTGETTCAP, SETICON, SETTITLE, SETWINTITLE, SETXPROP, SETCOLPAL, SETCWD, HYPERLINK,
      COLORFG, COLORBG, COLORCURSOR, COLORMOUSEFG, COLORMOUSEBG, SETFONT, SETFONTALL,
      CLIPBOARD, RCOLPAL, COLORSPECIAL, RCOLORFG, RCOLORBG, RCOLORCURSOR, RCOLORMOUSEFG,
      RCOLORMOUSEBG, RCOLORHIGHLIGHTFG, RCOLORHIGHLIGHTBG, NOTIFY, DUMPSTATE]"

text \<open>
  Modelled from the spec: \<^verbatim>\<open>crispy::sort\<close> (crispy/sort.h is not among the sources). The
  table is built once and sorted by the comparison of two definitions; the model sorts by
  insertion, placing an element before the first one it does not exceed.
\<close>

fun insert_sorted :: "FunctionDefinition \<Rightarrow> FunctionDefinition list \<Rightarrow> FunctionDefinition list" where
  "insert_sorted x [] = [x]"
| "insert_sorted x (y # ys) =
     (if compare_definitions x y \<le> 0 then x # y # ys else y # insert_sorted x ys)"

definition crispy_sort :: "FunctionDefinition list \<Rightarrow> FunctionDefinition list" where
  "crispy_sort xs = foldr insert_sorted xs []"

definition functions_table :: "FunctionDefinition list" where
  "functions_table = crispy_sort functions_array"

text \<open>
  Modelled from the spec: \<^verbatim>\<open>select\<close> (declared in Functions.h, defined in Functions.cpp,
  which is not among the sources). The sorted table is queried by binary search with the
  comparison of a selector and a definition: the search keeps a closed index interval,
  probes its middle, continues to the right of it when the selector compares greater and to
  the left when it compares less, and returns the probed definition when it compares equal.
\<close>

function select_loop ::
  "FunctionSelector \<Rightarrow> FunctionDefinition list \<Rightarrow> nat \<Rightarrow> nat \<Rightarrow> FunctionDefinition option" where
  "select_loop selector funcs a b =
     (if a \<le> b \<and> b < length funcs then
        (let i = (a + b) div 2;
             rel = compare selector (funcs ! i)
         in if rel > 0 then select_loop selector funcs (i + 1) b
            else if rel < 0 then (if i = 0 then None else select_loop selector funcs a (i - 1))
            else Some (funcs ! i))
      else None)"
  by pat_completeness auto
termination
  by (relation "measure (\<lambda>(selector, funcs, a, b). b + 1 - a)") auto

declare select_loop.simps [simp del]

definition select :: "FunctionSelector \<Rightarrow> FunctionDefinition option" where
  "select selector = select_loop selector functions_table 0 (length functions_table - 1)"

definition selector_of :: "FunctionDefinition \<Rightarrow> int \<Rightarrow> FunctionSelector" where
  \<comment> \<open>the selector built from a definition's own category, leader, intermediate and final
      byte, with the given argument count\<close>
  "selector_of d n =
     \<lparr>sel_category = category d, sel_leader = leader d, sel_argc = n,
      sel_intermediate = intermediate d, sel_finalSymbol = finalSymbol d\<rparr>"

text \<open>
  The matching precedence in the spec's words: the selector and the definition are compared
  lexicographically by category, then final byte, then leader, then intermediate, and last
  by parameter-count compatibility. For OSC the argument count is compared with
  \<^verbatim>\<open>maximumParameters\<close> as a number; otherwise an argument count within
  \<^verbatim>\<open>[minimumParameters, maximumParameters]\<close> is compatible, one below it compares less and
  one above it compares greater.
\<close>

fun lexicographic :: "int list \<Rightarrow> int list \<Rightarrow> int \<Rightarrow> int" where
  "lexicographic (x # xs) (y # ys) r = (if x \<noteq> y then x - y else lexicographic xs ys r)"
| "lexicographic _ _ r = r"

definition keys :: "FunctionDefinition \<Rightarrow> int list" where
  "keys d = [category_int (category d), char_int (finalSymbol d), char_int (leader d),
             char_int (intermediate d)]"

definition sel_keys :: "FunctionSelector \<Rightarrow> int list" where
  "sel_keys s = [category_int (sel_category s), char_int (sel_finalSymbol s),
                 char_int (sel_leader s), char_int (sel_intermediate s)]"

definition parameter_compatibility :: "FunctionSelector \<Rightarrow> FunctionDefinition \<Rightarrow> int" where
  "parameter_compatibility s d =
     (if category d = OSC then sel_argc s - int (maximumParameters d)
      else if int (minimumParameters d) \<le> sel_argc s \<and> sel_argc s \<le> int (maximumParameters d) then 0
      else if sel_argc s < int (minimumParameters d) then - 1 else 1)"

definition matching_precedence :: "FunctionSelector \<Rightarrow> FunctionDefinition \<Rightarrow> int" where
  "matching_precedence s d = lexicographic (sel_keys s) (keys d) (parameter_compatibility s d)"

text \<open>
  Two definitions of the table are kept apart when their parameter ranges are in order and
  the first precedes the second: by the key of category, final byte, leader and
  intermediate, or, with equal keys, by disjoint parameter ranges (by the code for OSC).
\<close>

definition gap :: "FunctionDefinition \<Rightarrow> FunctionDefinition \<Rightarrow> int" where
  "gap e d =
     (if category d = OSC then int (maximumParameters d) - int (maximumParameters e)
      else int (minimumParameters d) - int (maximumParameters e))"

definition before :: "FunctionDefinition \<Rightarrow> FunctionDefinition \<Rightarrow> bool" where
  "before e d =
     (minimumParameters e \<le> maximumParameters e \<and> minimumParameters d \<le> maximumParameters d \<and>
      0 < lexicographic (keys d) (keys e) (gap e d))"

text \<open>
  The argument counts that select a definition: its own code for OSC, a count within its
  parameter bounds otherwise.
\<close>

definition argc_matches :: "FunctionDefinition \<Rightarrow> int \<Rightarrow> bool" where
  "argc_matches d n =
     (if category d = OSC then n = int (maximumParameters d)
      else int (minimumParameters d) \<le> n \<and> n \<le> int (maximumParameters d))"

section \<open>The sequencer (vtbackend/Sequencer.cpp)\<close>

text \<open>
  \<^verbatim>\<open>Terminal\<close>, \<^verbatim>\<open>Screen\<close> and \<^verbatim>\<open>Sequence\<close> are declared in headers that are not among the
  sources. The records hold what the sequencer reads and writes: the instruction counter
  of the terminal state, the page width of the settings, the two screens with cursor
  column, right margin and current line, and the sequence under construction with its
  category, leader, parameters, intermediate characters and final character. The
  instruction counter is a natural number, a parameter of a sequence a 16-bit word.
\<close>

datatype ScreenType = Primary | Alternate

record Screen =
  cursor_column :: int
  margin_horizontal_to :: int
  currentLine :: Line

record Terminal =
  instructionCounter :: nat
  pageSize_columns :: int
  activeScreen :: ScreenType
  primaryScreen :: Screen
  alternateScreen :: Screen

record Sequence =
  seq_category :: FunctionCategory
  seq_leader :: char
  seq_parameters :: "16 word list"
  intermediateCharacters :: string
  seq_finalChar :: char

record Sequencer =
  terminal :: Terminal
  sequence :: Sequence

definition isPrimaryScreen :: "Terminal \<Rightarrow> bool" where
  "isPrimaryScreen t = (activeScreen t = Primary)"

definition currentScreen :: "Terminal \<Rightarrow> Screen" where
  "currentScreen t = (if isPrimaryScreen t then primaryScreen t else alternateScreen t)"

definition update_currentScreen :: "(Screen \<Rightarrow> Screen) \<Rightarrow> Terminal \<Rightarrow> Terminal" where
  "update_currentScreen f t =
     (if isPrimaryScreen t then t\<lparr>primaryScreen := f (primaryScreen t)\<rparr>
      else t\<lparr>alternateScreen := f (alternateScreen t)\<rparr>)"

text \<open>
  What the sequencer calls but the sources do not hold is a parameter of the model: the
  constant \<^verbatim>\<open>Sequence::MaxOscLength\<close>, \<^verbatim>\<open>parser::extractCodePrefix\<close> (the numeric code of
  an OSC string and the number of characters to skip), the parameter builder's \<^verbatim>\<open>set\<close> and
  \<^verbatim>\<open>fixiate\<close>, \<^verbatim>\<open>Sequencer::clear\<close>, the screen's text placement and C0 handlers, and
  \<^verbatim>\<open>processSequence\<close>.
\<close>

record Environment =
  MaxOscLength :: nat
  extractCodePrefix :: "string \<Rightarrow> int \<times> nat"
  builder_set :: "16 word \<Rightarrow> 16 word list \<Rightarrow> 16 word list"
  builder_fixiate :: "16 word list \<Rightarrow> 16 word list"
  clear_sequence :: "Sequence \<Rightarrow> Sequence"
  place_codepoint :: "char32_t \<Rightarrow> Screen \<Rightarrow> Screen"
  place_run :: "string \<Rightarrow> nat \<Rightarrow> Screen \<Rightarrow> Screen"
  c0_handler :: "char \<Rightarrow> Screen \<Rightarrow> Screen"
  processSequence :: "Sequence \<Rightarrow> Terminal \<Rightarrow> Terminal"

text \<open>
  Modelled from the spec: the screen's \<^verbatim>\<open>writeText\<close> (both overloads) and
  \<^verbatim>\<open>executeControlCode\<close> (Screen.cpp is not among the sources). Printing writes to the
  active screen at its cursor position. Executing a control byte invokes the matching C0
  handler; the spec lists an increment of the instruction counter as a side effect of every
  execute, and \<^verbatim>\<open>Sequencer::execute\<close> itself only delegates, so the increment is the
  handler's.
\<close>

definition writeText :: "Environment \<Rightarrow> char32_t \<Rightarrow> Terminal \<Rightarrow> Terminal" where
  "writeText env codepoint t = update_currentScreen (place_codepoint env codepoint) t"

definition writeText_run :: "Environment \<Rightarrow> string \<Rightarrow> nat \<Rightarrow> Terminal \<Rightarrow> Terminal" where
  "writeText_run env chars cellCount t = update_currentScreen (place_run env chars cellCount) t"

definition executeControlCode :: "Environment \<Rightarrow> char \<Rightarrow> Terminal \<Rightarrow> Terminal" where
  "executeControlCode env controlCode t =
     update_currentScreen (c0_handler env controlCode)
       (t\<lparr>instructionCounter := instructionCounter t + 1\<rparr>)"

definition print :: "Environment \<Rightarrow> char32_t \<Rightarrow> Sequencer \<Rightarrow> Sequencer" where
  "print env codepoint sq =
     (let t = terminal sq;
          t = t\<lparr>instructionCounter := instructionCounter t + 1\<rparr>
      in sq\<lparr>terminal := writeText env codepoint t\<rparr>)"

definition print_run :: "Environment \<Rightarrow> string \<Rightarrow> nat \<Rightarrow> Sequencer \<Rightarrow> error + (nat \<times> Sequencer)" where
  \<comment> \<open>the overload \<^verbatim>\<open>print(chars, cellCount)\<close>; it returns the columns left in the page\<close>
  "print_run env chars cellCount sq =
     (if chars = [] then Inl AssertionFailed
      else
        (let t = terminal sq;
             t = t\<lparr>instructionCounter := instructionCounter t + length chars\<rparr>;
             t = writeText_run env chars cellCount t
         in Inr (size_t_sub (to_size_t (pageSize_columns t))
                            (to_size_t (cursor_column (currentScreen t))),
                 sq\<lparr>terminal := t\<rparr>)))"

definition execute :: "Environment \<Rightarrow> char \<Rightarrow> Sequencer \<Rightarrow> Sequencer" where
  "execute env controlCode sq = sq\<lparr>terminal := executeControlCode env controlCode (terminal sq)\<rparr>"

definition putOSC :: "Environment \<Rightarrow> char \<Rightarrow> Sequencer \<Rightarrow> Sequencer" where
  "putOSC env ch sq =
     (if length (intermediateCharacters (sequence sq)) + 1 < MaxOscLength env then
        sq\<lparr>sequence := (sequence sq)
              \<lparr>intermediateCharacters := intermediateCharacters (sequence sq) @ [ch]\<rparr>\<rparr>
      else sq)"

definition handleSequence :: "Environment \<Rightarrow> Sequencer \<Rightarrow> Sequencer" where
  "handleSequence env sq =
     (let s = (sequence sq)\<lparr>seq_parameters := builder_fixiate env (seq_parameters (sequence sq))\<rparr>
      in sq\<lparr>sequence := s, terminal := processSequence env s (terminal sq)\<rparr>)"

definition dispatchOSC_prepare :: "Environment \<Rightarrow> Sequencer \<Rightarrow> Sequencer" where
  \<comment> \<open>\<^verbatim>\<open>dispatchOSC\<close> up to its call of \<^verbatim>\<open>handleSequence\<close>: the code prefix becomes the
      parameter and is erased from the string\<close>
  "dispatchOSC_prepare env sq =
     (let (code, skipCount) = extractCodePrefix env (intermediateCharacters (sequence sq));
          s = (sequence sq)\<lparr>seq_parameters := builder_set env (word_of_int code)
                                                (seq_parameters (sequence sq))\<rparr>;
          s = s\<lparr>intermediateCharacters := drop skipCount (intermediateCharacters s)\<rparr>
      in sq\<lparr>sequence := s\<rparr>)"

definition dispatchOSC :: "Environment \<Rightarrow> Sequencer \<Rightarrow> Sequencer" where
  "dispatchOSC env sq =
     (let sq = handleSequence env (dispatchOSC_prepare env sq)
      in sq\<lparr>sequence := clear_sequence env (sequence sq)\<rparr>)"

definition putOSC_all :: "Environment \<Rightarrow> string \<Rightarrow> Sequencer \<Rightarrow> Sequencer" where
  \<comment> \<open>one \<^verbatim>\<open>putOSC\<close> call per byte, in order\<close>
  "putOSC_all env bytes sq = foldl (\<lambda>sq ch. putOSC env ch sq) sq bytes"

definition collected :: "Environment \<Rightarrow> string \<Rightarrow> string" where
  \<comment> \<open>the bytes of an OSC string that are kept: all but the last one the cap leaves room for\<close>
  "collected env bytes = take (MaxOscLength env - 1) bytes"

definition maxBulkTextSequenceWidth :: "Sequencer \<Rightarrow> error + nat" where
  "maxBulkTextSequenceWidth sq =
     (let t = terminal sq in
      if \<not> isPrimaryScreen t then Inr 0
      else if \<not> isTrivialBuffer (currentLine (primaryScreen t)) then Inr 0
      else if \<not> (margin_horizontal_to (currentScreen t) \<ge> cursor_column (currentScreen t)) then
        Inl AssertionFailed
      else
        Inr (to_size_t (margin_horizontal_to (currentScreen t) - cursor_column (currentScreen t))))"

section \<open>Example values\<close>

definition accented_cell :: "char32_t \<Rightarrow> CompactCell" where
  \<comment> \<open>a cell with the given primary codepoint and a combining acute accent (U+0301) as extra
      codepoint\<close>
  "accented_cell cp =
     \<lparr>cell_codepoint = cp,
      cell_extra = Some \<lparr>extra_codepoints = [0x301], extra_hyperlink = 0\<rparr>,
      cell_width = 1, cell_attributes = defaultAttributes\<rparr>"

definition ascii_line :: "string \<Rightarrow> int \<Rightarrow> Line" where
  \<comment> \<open>a line in trivial form that holds the given US-ASCII text in a page of the given width\<close>
  "ascii_line s w =
     \<lparr>line_storage = Trivial \<lparr>displayWidth = w, textAttributes = defaultAttributes,
        fillAttributes = defaultAttributes, hyperlink = 0, usedColumns = int (length s),
        text = s\<rparr>,
      line_flags = 0\<rparr>"

definition inflated_line :: "string \<Rightarrow> int \<Rightarrow> Line" where
  \<comment> \<open>the same content forced into inflated form\<close>
  "inflated_line s w = snd (inflatedBuffer (ascii_line s w))"

definition example_env :: Environment where
  "example_env =
     \<lparr>MaxOscLength = 4, extractCodePrefix = (\<lambda>s. (0, 2)),
      builder_set = (\<lambda>w ps. [w]), builder_fixiate = (\<lambda>ps. ps),
      clear_sequence = (\<lambda>s. s\<lparr>intermediateCharacters := []\<rparr>),
      place_codepoint = (\<lambda>cp s. s), place_run = (\<lambda>chars n s. s), c0_handler = (\<lambda>c s. s),
      processSequence = (\<lambda>s t. t)\<rparr>"

definition example_screen :: "Line \<Rightarrow> Screen" where
  "example_screen l = \<lparr>cursor_column = 3, margin_horizontal_to = 9, currentLine = l\<rparr>"

definition example_sequencer :: "ScreenType \<Rightarrow> Sequencer" where
  "example_sequencer active =
     \<lparr>terminal =
        \<lparr>instructionCounter = 0, pageSize_columns = 10, activeScreen = active,
         primaryScreen = example_screen (ascii_line ''abc'' 10),
         alternateScreen = example_screen (inflated_line ''abc'' 10)\<rparr>,
      sequence =
        \<lparr>seq_category = OSC, seq_leader = CHR 0x00, seq_parameters = [],
         intermediateCharacters = [], seq_finalChar = CHR 0x00\<rparr>\<rparr>"

section \<open>Theorems\<close>

subsection \<open>Cells\<close>

lemma foldl_snoc_append: "foldl (\<lambda>s cp. s @ [cp]) s xs = s @ xs"
  by (induction xs arbitrary: s) simp_all

lemma foldl_convert_append:
  "foldl (\<lambda>s cp. s @ convert_to_char cp) s xs = s @ concat (map convert_to_char xs)"
  by (induction xs arbitrary: s) simp_all

lemma codepoints_eq:
  "codepoints c = (if cell_codepoint c = 0 then [] else cell_codepoint c # stored_extra_codepoints c)"
  by (simp add: codepoints_def stored_extra_codepoints_def foldl_snoc_append split: option.split)

lemma toUtf8_eq:
  "toUtf8 c =
     (if cell_codepoint c = 0 then []
      else convert_to_char (cell_codepoint c) @ convert_to_string (stored_extra_codepoints c))"
  by (simp add: toUtf8_def stored_extra_codepoints_def convert_to_string_def foldl_convert_append
      split: option.split)

text \<open>
  Claim C10. A cell whose primary codepoint is 0 yields the empty string from both
  \<^verbatim>\<open>codepoints()\<close> and \<^verbatim>\<open>toUtf8()\<close>, whatever its extra payload holds. A cell whose
  primary codepoint is not 0 yields the primary codepoint followed by the extra codepoints
  in stored order; \<^verbatim>\<open>toUtf8()\<close> gives the UTF-8 encoding of each of them, in that order.
\<close>

theorem C10_codepoints_toUtf8:
  "(cell_codepoint c = 0 \<longrightarrow> codepoints c = [] \<and> toUtf8 c = []) \<and>
   (cell_codepoint c \<noteq> 0 \<longrightarrow>
      codepoints c = cell_codepoint c # stored_extra_codepoints c \<and>
      toUtf8 c = convert_to_char (cell_codepoint c)
                 @ concat (map convert_to_char (stored_extra_codepoints c)))"
  by (simp add: codepoints_eq toUtf8_eq convert_to_string_def)

text \<open>
  Witness for C10: the letter e (U+0065) with a combining acute accent, and the same payload
  under the primary codepoint 0.
\<close>

theorem C10_witness:
  "cell_codepoint (accented_cell 0) = 0 \<and>
   codepoints (accented_cell 0) = [] \<and> toUtf8 (accented_cell 0) = [] \<and>
   cell_codepoint (accented_cell 0x65) \<noteq> 0 \<and>
   codepoints (accented_cell 0x65) = [0x65, 0x301] \<and>
   toUtf8 (accented_cell 0x65) = [CHR ''e'', CHR 0xCC, CHR 0x81]"
proof -
  have enc: "convert_to_char 0x65 = [CHR ''e'']" "convert_to_char 0x301 = [CHR 0xCC, CHR 0x81]"
    by code_simp+
  have cp: "cell_codepoint (accented_cell 0) = 0" "cell_codepoint (accented_cell 0x65) = 0x65"
    "stored_extra_codepoints (accented_cell 0) = [0x301]"
    "stored_extra_codepoints (accented_cell 0x65) = [0x301]"
    by (simp_all add: accented_cell_def stored_extra_codepoints_def)
  show ?thesis
    using C10_codepoints_toUtf8 [of "accented_cell 0"] C10_codepoints_toUtf8 [of "accented_cell 0x65"]
    by (simp add: cp enc)
qed

subsection \<open>The function table\<close>

lemma of_char_int_bounds: "(0::int) \<le> of_char c" "(of_char c :: int) < 256"
proof -
  have "(of_char c :: int) = int (of_char c)" by (simp add: of_char_def)
  then show "(0::int) \<le> of_char c" "(of_char c :: int) < 256"
    using nat_of_char_less_256 [of c] by simp_all
qed

lemma char_int_eq_iff: "char_int a = char_int b \<longleftrightarrow> a = b"
  using of_char_int_bounds [of a] of_char_int_bounds [of b] of_char_eq_iff [of a b, where ?'a = int]
  by (auto simp: char_int_def split: if_splits)

lemma category_int_eq_iff: "category_int a = category_int b \<longleftrightarrow> a = b"
  by (cases a; cases b) (simp_all add: category_int_def)

lemma compare_eq_precedence: "compare s d = matching_precedence s d"
  by (simp add: compare_def matching_precedence_def sel_keys_def keys_def
      parameter_compatibility_def char_int_eq_iff category_int_eq_iff)

lemma keys_eq_iff:
  "keys d = keys e \<longleftrightarrow>
     category d = category e \<and> finalSymbol d = finalSymbol e \<and> leader d = leader e \<and>
     intermediate d = intermediate e"
  by (simp add: keys_def char_int_eq_iff category_int_eq_iff)

lemma sel_keys_selector_of: "sel_keys (selector_of d n) = keys d"
  by (simp add: sel_keys_def keys_def selector_of_def)

lemma keys_length: "\<exists>a1 a2 a3 a4. keys d = [a1, a2, a3, a4]"
  by (simp add: keys_def)

lemma lex_pos_mono:
  fixes a1 a2 a3 a4 b1 b2 b3 b4 r r' :: int
  assumes "0 < lexicographic [a1, a2, a3, a4] [b1, b2, b3, b4] r"
    and "[a1, a2, a3, a4] = [b1, b2, b3, b4] \<Longrightarrow> 0 < r \<Longrightarrow> 0 < r'"
  shows "0 < lexicographic [a1, a2, a3, a4] [b1, b2, b3, b4] r'"
  using assms by (auto split: if_splits)

lemma lex_pos_flip:
  fixes a1 a2 a3 a4 b1 b2 b3 b4 r r' :: int
  assumes "0 < lexicographic [a1, a2, a3, a4] [b1, b2, b3, b4] r"
    and "[a1, a2, a3, a4] = [b1, b2, b3, b4] \<Longrightarrow> 0 < r \<Longrightarrow> r' < 0"
  shows "lexicographic [b1, b2, b3, b4] [a1, a2, a3, a4] r' < 0"
  using assms by (auto split: if_splits)

lemma lex_pos_trans:
  fixes a1 a2 a3 a4 b1 b2 b3 b4 c1 c2 c3 c4 r r' r'' :: int
  assumes "0 < lexicographic [a1, a2, a3, a4] [b1, b2, b3, b4] r"
    and "0 < lexicographic [b1, b2, b3, b4] [c1, c2, c3, c4] r'"
    and "[a1, a2, a3, a4] = [b1, b2, b3, b4] \<Longrightarrow> [b1, b2, b3, b4] = [c1, c2, c3, c4] \<Longrightarrow> 0 < r \<Longrightarrow> 0 < r' \<Longrightarrow> 0 < r''"
  shows "0 < lexicographic [a1, a2, a3, a4] [c1, c2, c3, c4] r''"
  using assms by (auto split: if_splits)

lemma compare_selector_of_zero: "argc_matches d n \<Longrightarrow> compare (selector_of d n) d = 0"
  by (auto simp: compare_def selector_of_def argc_matches_def split: if_splits)

lemma compare_selector_of_pos:
  assumes "before e d" "argc_matches d n"
  shows "0 < compare (selector_of d n) e"
proof -
  obtain a1 a2 a3 a4 b1 b2 b3 b4 where k: "keys d = [a1, a2, a3, a4]" "keys e = [b1, b2, b3, b4]"
    using keys_length by metis
  have pos: "0 < lexicographic [a1, a2, a3, a4] [b1, b2, b3, b4] (gap e d)"
    and rng: "minimumParameters e \<le> maximumParameters e"
    using assms(1) by (simp_all add: before_def k)
  have "0 < lexicographic [a1, a2, a3, a4] [b1, b2, b3, b4] (parameter_compatibility (selector_of d n) e)"
  proof (rule lex_pos_mono [OF pos])
    assume "[a1, a2, a3, a4] = [b1, b2, b3, b4]" "0 < gap e d"
    then have "category d = category e" using k keys_eq_iff [of d e] by simp
    then show "0 < parameter_compatibility (selector_of d n) e"
      using \<open>0 < gap e d\<close> assms(2) rng
      by (auto simp: parameter_compatibility_def gap_def argc_matches_def selector_of_def split: if_splits)
  qed
  then show ?thesis
    by (simp add: compare_eq_precedence matching_precedence_def sel_keys_selector_of k)
qed

lemma compare_selector_of_neg:
  assumes "before d e" "argc_matches d n"
  shows "compare (selector_of d n) e < 0"
proof -
  obtain a1 a2 a3 a4 b1 b2 b3 b4 where k: "keys d = [a1, a2, a3, a4]" "keys e = [b1, b2, b3, b4]"
    using keys_length by metis
  have pos: "0 < lexicographic [b1, b2, b3, b4] [a1, a2, a3, a4] (gap d e)"
    using assms(1) by (simp_all add: before_def k)
  have "lexicographic [a1, a2, a3, a4] [b1, b2, b3, b4] (parameter_compatibility (selector_of d n) e) < 0"
  proof (rule lex_pos_flip [OF pos])
    assume "[b1, b2, b3, b4] = [a1, a2, a3, a4]" "0 < gap d e"
    then have "category d = category e" using k keys_eq_iff [of d e] by simp
    then show "parameter_compatibility (selector_of d n) e < 0"
      using \<open>0 < gap d e\<close> assms(2)
      by (auto simp: parameter_compatibility_def gap_def argc_matches_def selector_of_def split: if_splits)
  qed
  then show ?thesis
    by (simp add: compare_eq_precedence matching_precedence_def sel_keys_selector_of k)
qed

lemma before_trans:
  assumes "before x y" "before y z"
  shows "before x z"
proof -
  obtain a1 a2 a3 a4 b1 b2 b3 b4 c1 c2 c3 c4 where
    k: "keys z = [a1, a2, a3, a4]" "keys y = [b1, b2, b3, b4]" "keys x = [c1, c2, c3, c4]"
    using keys_length by metis
  have p1: "0 < lexicographic [a1, a2, a3, a4] [b1, b2, b3, b4] (gap y z)"
    and p2: "0 < lexicographic [b1, b2, b3, b4] [c1, c2, c3, c4] (gap x y)"
    and rng: "minimumParameters x \<le> maximumParameters x" "minimumParameters y \<le> maximumParameters y"
       "minimumParameters z \<le> maximumParameters z"
    using assms by (simp_all add: before_def k)
  have "0 < lexicographic [a1, a2, a3, a4] [c1, c2, c3, c4] (gap x z)"
  proof (rule lex_pos_trans [OF p1 p2])
    assume "[a1, a2, a3, a4] = [b1, b2, b3, b4]" "[b1, b2, b3, b4] = [c1, c2, c3, c4]"
       "0 < gap y z" "0 < gap x y"
    then have "category z = category y" "category y = category x"
      using k keys_eq_iff [of z y] keys_eq_iff [of y x] by simp_all
    then show "0 < gap x z"
      using \<open>0 < gap y z\<close> \<open>0 < gap x y\<close> rng by (auto simp: gap_def split: if_splits)
  qed
  then show ?thesis using rng by (simp add: before_def k)
qed

lemma before_transp: "transp before"
  using before_trans by (auto simp: transp_def)

lemma select_loop_finds:
  "k < length funcs \<Longrightarrow> compare s (funcs ! k) = 0 \<Longrightarrow>
   (\<forall>i<k. 0 < compare s (funcs ! i)) \<Longrightarrow>
   (\<forall>i. k < i \<and> i < length funcs \<longrightarrow> compare s (funcs ! i) < 0) \<Longrightarrow>
   a \<le> k \<Longrightarrow> k \<le> b \<Longrightarrow> b < length funcs \<Longrightarrow> select_loop s funcs a b = Some (funcs ! k)"
proof (induction s funcs a b rule: select_loop.induct)
  case (1 selector funcs a b)
  let ?i = "(a + b) div 2"
  have ab: "a \<le> b" "b < length funcs" using "1.prems" by simp_all
  have irange: "a \<le> ?i" "?i \<le> b" using ab by simp_all
  consider (lt) "?i < k" | (eq) "?i = k" | (gt) "k < ?i" by linarith
  then show ?case
  proof cases
    case lt
    then have rel: "0 < compare selector (funcs ! ?i)" using "1.prems"(3) by simp
    have "select_loop selector funcs (?i + 1) b = Some (funcs ! k)"
      using "1.IH"(1) [OF _ refl refl] ab rel lt "1.prems" by simp
    then show ?thesis
      using ab rel by (subst select_loop.simps) (simp add: Let_def)
  next
    case eq
    then show ?thesis
      using ab "1.prems"(2) by (subst select_loop.simps) (simp add: Let_def)
  next
    case gt
    then have rel: "compare selector (funcs ! ?i) < 0" using "1.prems"(4) irange ab by simp
    have "select_loop selector funcs a (?i - 1) = Some (funcs ! k)"
      using "1.IH"(2) [OF _ refl refl] ab rel gt "1.prems" irange by simp
    then show ?thesis
      using ab rel gt by (subst select_loop.simps) (simp add: Let_def)
  qed
qed

lemma set_insert_sorted: "set (insert_sorted x xs) = insert x (set xs)"
  by (induction xs) auto

lemma set_crispy_sort: "set (crispy_sort xs) = set xs"
  by (induction xs) (simp_all add: crispy_sort_def set_insert_sorted)

lemma functions_table_successively: "successively before functions_table"
  by code_simp

lemma functions_table_sorted: "sorted_wrt before functions_table"
  using functions_table_successively successively_conv_sorted_wrt [OF before_transp] by simp

lemma select_nth:
  assumes "k < length functions_table" "argc_matches (functions_table ! k) n"
  shows "select (selector_of (functions_table ! k) n) = Some (functions_table ! k)"
proof -
  let ?s = "selector_of (functions_table ! k) n"
  have zero: "compare ?s (functions_table ! k) = 0"
    using compare_selector_of_zero [OF assms(2)] .
  have left: "\<forall>i<k. 0 < compare ?s (functions_table ! i)"
    using sorted_wrt_nth_less [OF functions_table_sorted _ assms(1)]
      compare_selector_of_pos [OF _ assms(2)] by auto
  have right: "\<forall>i. k < i \<and> i < length functions_table \<longrightarrow> compare ?s (functions_table ! i) < 0"
    using sorted_wrt_nth_less [OF functions_table_sorted]
      compare_selector_of_neg [OF _ assms(2)] by auto
  have "select_loop ?s functions_table 0 (length functions_table - 1) = Some (functions_table ! k)"
    using select_loop_finds [OF assms(1) zero left right] assms(1) by simp
  then show ?thesis by (simp add: select_def)
qed

lemma set_functions_table: "set functions_table = set functions_array"
  by (simp add: functions_table_def set_crispy_sort)

lemma SETTITLE_registered: "SETTITLE \<in> set functions_table"
  by (simp add: set_functions_table functions_array_def)

lemma SETICON_registered: "SETICON \<in> set functions_table"
  by (simp add: set_functions_table functions_array_def)

lemma CUP_registered: "CUP \<in> set functions_table"
  by (simp add: set_functions_table functions_array_def)

text \<open>
  Claim C3. The comparison of a selector with a definition is the lexicographic comparison by
  category, then final byte, then leader, then intermediate, then parameter-count
  compatibility. With equal category, final byte, leader and intermediate, a CSI or DCS
  selector compares equal exactly when its argument count lies within
  \<^verbatim>\<open>[minimumParameters, maximumParameters]\<close>, and an OSC selector exactly when its argument
  count equals \<^verbatim>\<open>maximumParameters\<close>.
\<close>

theorem C3_compare_precedence:
  "compare s d = matching_precedence s d \<and>
   (sel_keys s = keys d \<and> (category d = CSI \<or> category d = DCS) \<longrightarrow>
      (compare s d = 0 \<longleftrightarrow>
         int (minimumParameters d) \<le> sel_argc s \<and> sel_argc s \<le> int (maximumParameters d))) \<and>
   (sel_keys s = keys d \<and> category d = OSC \<longrightarrow>
      (compare s d = 0 \<longleftrightarrow> sel_argc s = int (maximumParameters d)))"
proof -
  have "sel_keys s = keys d \<Longrightarrow> compare s d = parameter_compatibility s d"
    by (simp add: compare_eq_precedence matching_precedence_def keys_def sel_keys_def)
  then show ?thesis
    by (auto simp: compare_eq_precedence parameter_compatibility_def)
qed

text \<open>
  Witness for C3: cursor position (CSI H) with two arguments, and the hyperlink command
  (OSC 8) with the argument counts 8 and 7.
\<close>

theorem C3_witness:
  "sel_keys (selector_of CUP 2) = keys CUP \<and> (category CUP = CSI \<or> category CUP = DCS) \<and>
   compare (selector_of CUP 2) CUP = 0 \<and>
   sel_keys (selector_of HYPERLINK 8) = keys HYPERLINK \<and> category HYPERLINK = OSC \<and>
   compare (selector_of HYPERLINK 8) HYPERLINK = 0 \<and>
   compare (selector_of HYPERLINK 7) HYPERLINK \<noteq> 0"
proof -
  have cup: "category CUP = CSI" "minimumParameters CUP = 0" "maximumParameters CUP = 2"
    by (simp_all add: CUP_def detail_CSI_vt_def)
  have hl: "category HYPERLINK = OSC" "maximumParameters HYPERLINK = 8"
    by (simp_all add: HYPERLINK_def detail_OSC_def)
  have argc: "sel_argc (selector_of CUP 2) = 2" "sel_argc (selector_of HYPERLINK 8) = 8"
    "sel_argc (selector_of HYPERLINK 7) = 7"
    by (simp_all add: selector_of_def)
  have "compare (selector_of CUP 2) CUP = 0"
    using C3_compare_precedence [of "selector_of CUP 2" CUP]
    by (simp add: sel_keys_selector_of cup argc)
  moreover have "compare (selector_of HYPERLINK 8) HYPERLINK = 0"
    using C3_compare_precedence [of "selector_of HYPERLINK 8" HYPERLINK]
    by (simp add: sel_keys_selector_of hl argc)
  moreover have "compare (selector_of HYPERLINK 7) HYPERLINK \<noteq> 0"
    using C3_compare_precedence [of "selector_of HYPERLINK 7" HYPERLINK]
    by (simp add: sel_keys_selector_of hl argc)
  ultimately show ?thesis
    by (simp add: sel_keys_selector_of cup hl)
qed

text \<open>
  Claim C2, as the spec states it, fails for OSC: the icon title command (OSC 1) has the
  parameter bounds 0 and 1, and the selector built from it with the argument count 0 selects
  the window and icon title command (OSC 0).
\<close>

theorem C2_counterexample:
  "SETICON \<in> set functions_table \<and>
   int (minimumParameters SETICON) \<le> 0 \<and> 0 \<le> int (maximumParameters SETICON) \<and>
   select \<lparr>sel_category = category SETICON, sel_leader = leader SETICON, sel_argc = 0,
           sel_intermediate = intermediate SETICON, sel_finalSymbol = finalSymbol SETICON\<rparr>
     = Some SETTITLE \<and>
   SETTITLE \<noteq> SETICON"
proof -
  have "selector_of SETICON 0 = selector_of SETTITLE 0"
    by (simp add: selector_of_def SETICON_def SETTITLE_def detail_OSC_def)
  moreover have "argc_matches SETTITLE 0"
    by (simp add: argc_matches_def SETTITLE_def detail_OSC_def)
  moreover obtain k where "k < length functions_table" "functions_table ! k = SETTITLE"
    using SETTITLE_registered by (auto simp: in_set_conv_nth)
  ultimately have "select (selector_of SETICON 0) = Some SETTITLE"
    using select_nth [of k 0] by simp
  moreover have "SETTITLE \<noteq> SETICON" "minimumParameters SETICON = 0" "maximumParameters SETICON = 1"
    by (simp_all add: SETICON_def SETTITLE_def detail_OSC_def)
  ultimately show ?thesis
    using SETICON_registered by (simp add: selector_of_def)
qed

text \<open>
  Claim C2, amended. For every definition of the function table, \<^verbatim>\<open>select\<close> applied to the
  selector built from the definition's own category, leader, intermediate and final byte
  returns exactly that definition, when the argument count lies within
  \<^verbatim>\<open>[minimumParameters, maximumParameters]\<close> for C0, ESC, CSI and DCS, and when it equals the
  definition's code (\<^verbatim>\<open>maximumParameters\<close>) for OSC.
\<close>

theorem C2_select_roundtrip_amended:
  assumes "d \<in> set functions_table" "argc_matches d n"
  shows "select (selector_of d n) = Some d"
proof -
  obtain k where "k < length functions_table" "functions_table ! k = d"
    using assms(1) by (auto simp: in_set_conv_nth)
  then show ?thesis
    using select_nth [of k n] assms(2) by simp
qed

text \<open>Witness for C2: cursor position (CSI H) with two arguments.\<close>

theorem C2_witness:
  "CUP \<in> set functions_table \<and> argc_matches CUP 2 \<and> select (selector_of CUP 2) = Some CUP"
proof -
  have m: "argc_matches CUP 2"
    by (simp add: argc_matches_def CUP_def detail_CSI_vt_def)
  show ?thesis
    using C2_select_roundtrip_amended [OF CUP_registered m] CUP_registered m by simp
qed

subsection \<open>Lines\<close>


lemma reset_text_empty:
  "\<exists>t. line_storage (reset flags attributes l) = Trivial t \<and> text t = []"
  by (simp add: reset_def setBuffer_def inflatedBuffer_def Let_def TrivialLineBuffer_reset_def
      TrivialBuffer_def split: LineStorage.split)

text \<open>
  Claim C9. Whatever state a line is in, and whatever flags, attributes and width are given,
  \<^verbatim>\<open>fill(flags, attrs, 0, width)\<close> (the codepoint 0 is the reset case) leaves a line for
  which \<^verbatim>\<open>empty()\<close> is true.
\<close>

theorem C9_fill_zero_empty: "Line_empty (fill flags attributes 0 width l)"
proof -
  obtain t where "line_storage (reset flags attributes l) = Trivial t" "text t = []"
    using reset_text_empty by blast
  then show ?thesis
    by (simp add: fill_def Line_empty_def)
qed

text \<open>Witness for C9: the line holding "ab", in inflated and in trivial form.\<close>

theorem C9_witness:
  "Line_empty (fill LineFlags_Wrappable defaultAttributes 0 0 (inflated_line ''ab'' 2)) \<and>
   Line_empty (fill LineFlags_Wrappable defaultAttributes 0 0 (ascii_line ''ab'' 2)) \<and>
   \<not> Line_empty (inflated_line ''ab'' 2) \<and> \<not> Line_empty (ascii_line ''ab'' 2)"
proof -
  have "\<not> Line_empty (inflated_line ''ab'' 2)" "\<not> Line_empty (ascii_line ''ab'' 2)"
    by (simp_all add: Line_empty_def inflated_line_def ascii_line_def inflatedBuffer_def inflate_def
        Cell_empty_def)
  then show ?thesis
    using C9_fill_zero_empty [of LineFlags_Wrappable defaultAttributes 0 "inflated_line ''ab'' 2"]
      C9_fill_zero_empty [of LineFlags_Wrappable defaultAttributes 0 "ascii_line ''ab'' 2"]
    by simp
qed

lemma fill_ascii_signed_char:
  "\<exists>l. fill_ascii 1 defaultAttributes [CHR 0xE9] (ascii_line ''ab'' 2) = Inr l \<and>
       map cell_codepoint (fst (inflatedBuffer l)) = [0x61, 0xFFFFFFE9]"
  by (simp add: fill_ascii_def ascii_line_def inflatedBuffer_def inflate_def to_size_t_def
      size_t_max_def Cell_write_def char32_of_char_def char_int_def)

lemma fill_ascii_wrapped_sum:
  "fill_ascii (- 1) defaultAttributes ''a'' (ascii_line ''ab'' 2) = Inl OutOfRange"
  by (simp add: fill_ascii_def ascii_line_def inflatedBuffer_def inflate_def to_size_t_def
      size_t_max_def)











lemma installs_storage:
  "installs op \<Longrightarrow> apply_op op l = Inr l' \<Longrightarrow> \<exists>buffer. op = OpSetBuffer buffer \<and> line_storage l' = buffer"
  by (cases op) (auto simp: setBuffer_def)




















subsection \<open>Searching a line\<close>

lemma to_size_t_nonneg: "0 \<le> i \<Longrightarrow> i < 18446744073709551616 \<Longrightarrow> to_size_t i = nat i"
  by (simp add: to_size_t_def size_t_max_def)

lemma to_size_t_minus_one: "to_size_t (- 1) = 18446744073709551615"
  by (simp add: to_size_t_def size_t_max_def)

lemma utf8_b: "convert_to_string [0x62] = ''b''"
  by code_simp

lemma utf8_bc: "convert_to_string [0x62, 0x63] = ''bc''"
  by code_simp

lemma utf8_ca: "convert_to_string [0x63, 0x61] = ''ca''"
  by code_simp

lemma find_b: "sv_find ''b'' ''b'' (Suc 0) = None"
  by code_simp

lemma find_bc: "sv_find ''ab'' ''bc'' 0 = None"
  by code_simp

lemma rfind_ca: "sv_rfind ''ab'' ''ca'' (Suc 0) = None"
  by code_simp

lemma trivial_matchTextAt: "matchTextAt [0x62] 1 (ascii_line ''ab'' 2) = Inr False"
  by (simp add: matchTextAt_def ascii_line_def Let_def to_size_t_minus_one to_size_t_nonneg
      sv_substr_def utf8_b find_b)

lemma trivial_search: "search [0x62, 0x63] 0 (ascii_line ''ab'' 2) = Inr None"
  by (simp add: search_def ascii_line_def Let_def to_size_t_nonneg utf8_bc find_bc)

lemma trivial_searchReverse: "searchReverse [0x63, 0x61] 1 (ascii_line ''ab'' 2) = Inr None"
  by (simp add: searchReverse_def ascii_line_def Let_def to_size_t_nonneg utf8_ca rfind_ca)

lemma inflated_matchTextAt: "matchTextAt [0x62] 1 (inflated_line ''ab'' 2) = Inr True"
  by code_simp

lemma inflated_search:
  "search [0x62, 0x63] 0 (inflated_line ''ab'' 2)
   = Inr (Some \<lparr>column = 0, partialMatchLength = 1\<rparr>)"
  by code_simp

lemma inflated_searchReverse:
  "searchReverse [0x63, 0x61] 1 (inflated_line ''ab'' 2)
   = Inr (Some \<lparr>column = 1, partialMatchLength = 1\<rparr>)"
  by code_simp

text \<open>
  Claim C1 says that a line in trivial form and the same content in inflated form answer
  \<^verbatim>\<open>search\<close>, \<^verbatim>\<open>searchReverse\<close> and \<^verbatim>\<open>matchTextAt\<close> identically. The code does not: for
  the line holding "ab" in a page of two columns, the trivial form denies that "b" matches
  at column 1 and reports no partial match of "bc" at the right end nor of "ca" at the left
  end, while the inflated form finds all three.
\<close>

theorem C1_representations_disagree:
  "matchTextAt [0x62] 1 (ascii_line ''ab'' 2) = Inr False \<and>
   matchTextAt [0x62] 1 (inflated_line ''ab'' 2) = Inr True \<and>
   search [0x62, 0x63] 0 (ascii_line ''ab'' 2) = Inr None \<and>
   search [0x62, 0x63] 0 (inflated_line ''ab'' 2)
     = Inr (Some \<lparr>column = 0, partialMatchLength = 1\<rparr>) \<and>
   searchReverse [0x63, 0x61] 1 (ascii_line ''ab'' 2) = Inr None \<and>
   searchReverse [0x63, 0x61] 1 (inflated_line ''ab'' 2)
     = Inr (Some \<lparr>column = 1, partialMatchLength = 1\<rparr>)"
  by (simp add: trivial_matchTextAt trivial_search trivial_searchReverse inflated_matchTextAt
      inflated_search inflated_searchReverse)

subsection \<open>The sequencer\<close>

lemma update_currentScreen_counter:
  "instructionCounter (update_currentScreen f t) = instructionCounter t"
  by (simp add: update_currentScreen_def)

text \<open>
  Claim C6. Every call of the sequencer's \<^verbatim>\<open>print\<close>, for a single codepoint or for a run
  of characters (which the code asserts to be non-empty), and every call of \<^verbatim>\<open>execute\<close>
  increments the terminal's instruction counter: by one, and for a run by its number of
  characters.
\<close>

theorem C6_instruction_counter:
  "instructionCounter (terminal (print env codepoint sq)) = instructionCounter (terminal sq) + 1 \<and>
   (chars \<noteq> [] \<longrightarrow>
      (\<exists>r sq'. print_run env chars cellCount sq = Inr (r, sq') \<and>
         instructionCounter (terminal sq') = instructionCounter (terminal sq) + length chars \<and>
         instructionCounter (terminal sq) < instructionCounter (terminal sq'))) \<and>
   instructionCounter (terminal (execute env controlCode sq)) = instructionCounter (terminal sq) + 1"
  by (simp add: print_def print_run_def execute_def writeText_def writeText_run_def
      executeControlCode_def update_currentScreen_counter Let_def)

text \<open>Witness for C6: the letter a, the run "ab" and a line feed.\<close>

theorem C6_witness:
  "''ab'' \<noteq> [] \<and>
   instructionCounter (terminal (print example_env 0x61 (example_sequencer Primary))) = 1 \<and>
   (\<exists>r sq'. print_run example_env ''ab'' 2 (example_sequencer Primary) = Inr (r, sq') \<and>
      instructionCounter (terminal sq') = 2) \<and>
   instructionCounter (terminal (execute example_env (CHR 0x0A) (example_sequencer Primary))) = 1"
proof -
  have "instructionCounter (terminal (example_sequencer Primary)) = 0"
    by (simp add: example_sequencer_def)
  then show ?thesis
    using C6_instruction_counter [of example_env "0x61" "example_sequencer Primary" "''ab''" 2 "CHR 0x0A"]
    by auto
qed

lemma putOSC_all_Nil: "putOSC_all env [] sq = sq"
  by (simp add: putOSC_all_def)

lemma putOSC_all_Cons: "putOSC_all env (ch # bytes) sq = putOSC_all env bytes (putOSC env ch sq)"
  by (simp add: putOSC_all_def)

lemma putOSC_all_collected:
  "intermediateCharacters (sequence (putOSC_all env bytes sq)) =
     intermediateCharacters (sequence sq)
     @ take (MaxOscLength env - 1 - length (intermediateCharacters (sequence sq))) bytes"
proof (induction bytes arbitrary: sq)
  case Nil
  show ?case by (simp add: putOSC_all_Nil)
next
  case (Cons ch bytes)
  show ?case
  proof (cases "length (intermediateCharacters (sequence sq)) + 1 < MaxOscLength env")
    case True
    then have "MaxOscLength env - 1 - length (intermediateCharacters (sequence sq))
               = Suc (MaxOscLength env - 1 - length (intermediateCharacters (sequence (putOSC env ch sq))))"
      by (simp add: putOSC_def)
    then show ?thesis
      using True by (simp add: putOSC_all_Cons Cons.IH) (simp add: putOSC_def)
  next
    case False
    then have "putOSC env ch sq = sq" "MaxOscLength env - 1 - length (intermediateCharacters (sequence sq)) = 0"
      by (simp_all add: putOSC_def)
    then show ?thesis
      by (simp add: putOSC_all_Cons Cons.IH)
  qed
qed

lemma putOSC_all_rest:
  "terminal (putOSC_all env bytes sq) = terminal sq \<and>
   seq_parameters (sequence (putOSC_all env bytes sq)) = seq_parameters (sequence sq) \<and>
   seq_category (sequence (putOSC_all env bytes sq)) = seq_category (sequence sq) \<and>
   seq_leader (sequence (putOSC_all env bytes sq)) = seq_leader (sequence sq) \<and>
   seq_finalChar (sequence (putOSC_all env bytes sq)) = seq_finalChar (sequence sq)"
  by (induction bytes arbitrary: sq) (simp_all add: putOSC_all_Nil putOSC_all_Cons putOSC_def)

text \<open>
  Claim C7. \<^verbatim>\<open>putOSC\<close> drops every byte once the stored string has reached the cap (it keeps
  one byte less than \<^verbatim>\<open>MaxOscLength\<close>), the stored length never exceeds the cap, and
  \<^verbatim>\<open>dispatchOSC\<close> hands the sequence to the handler with exactly the collected bytes, the
  code prefix taken out as the parameter.
\<close>

theorem C7_osc_length_cap:
  "(MaxOscLength env \<le> length (intermediateCharacters (sequence sq)) + 1 \<longrightarrow> putOSC env ch sq = sq) \<and>
   (length (intermediateCharacters (sequence sq)) \<le> MaxOscLength env \<longrightarrow>
      length (intermediateCharacters (sequence (putOSC_all env bytes sq))) \<le> MaxOscLength env) \<and>
   (intermediateCharacters (sequence sq) = [] \<longrightarrow>
      intermediateCharacters (sequence (putOSC_all env bytes sq)) = collected env bytes \<and>
      terminal (dispatchOSC env (putOSC_all env bytes sq)) =
        processSequence env
          ((sequence sq)
             \<lparr>intermediateCharacters :=
                drop (snd (extractCodePrefix env (collected env bytes))) (collected env bytes),
              seq_parameters :=
                builder_fixiate env
                  (builder_set env (word_of_int (fst (extractCodePrefix env (collected env bytes))))
                     (seq_parameters (sequence sq)))\<rparr>)
          (terminal sq))"
proof -
  have drop_case: "MaxOscLength env \<le> length (intermediateCharacters (sequence sq)) + 1 \<longrightarrow> putOSC env ch sq = sq"
    by (simp add: putOSC_def)
  have bound: "length (intermediateCharacters (sequence sq)) \<le> MaxOscLength env \<longrightarrow>
      length (intermediateCharacters (sequence (putOSC_all env bytes sq))) \<le> MaxOscLength env"
    by (simp add: putOSC_all_collected) linarith
  have disp: "intermediateCharacters (sequence sq) = [] \<longrightarrow>
      intermediateCharacters (sequence (putOSC_all env bytes sq)) = collected env bytes \<and>
      terminal (dispatchOSC env (putOSC_all env bytes sq)) =
        processSequence env
          ((sequence sq)
             \<lparr>intermediateCharacters :=
                drop (snd (extractCodePrefix env (collected env bytes))) (collected env bytes),
              seq_parameters :=
                builder_fixiate env
                  (builder_set env (word_of_int (fst (extractCodePrefix env (collected env bytes))))
                     (seq_parameters (sequence sq)))\<rparr>)
          (terminal sq)"
  proof
    assume e: "intermediateCharacters (sequence sq) = []"
    have ic: "intermediateCharacters (sequence (putOSC_all env bytes sq)) = collected env bytes"
      by (simp add: putOSC_all_collected e collected_def)
    have seq_eq: "sequence (putOSC_all env bytes sq)
                  = (sequence sq)\<lparr>intermediateCharacters := collected env bytes\<rparr>"
      using ic putOSC_all_rest [of env bytes sq] by (intro Sequence.equality) simp_all
    show "intermediateCharacters (sequence (putOSC_all env bytes sq)) = collected env bytes \<and>
      terminal (dispatchOSC env (putOSC_all env bytes sq)) =
        processSequence env
          ((sequence sq)
             \<lparr>intermediateCharacters :=
                drop (snd (extractCodePrefix env (collected env bytes))) (collected env bytes),
              seq_parameters :=
                builder_fixiate env
                  (builder_set env (word_of_int (fst (extractCodePrefix env (collected env bytes))))
                     (seq_parameters (sequence sq)))\<rparr>)
          (terminal sq)"
      using putOSC_all_rest [of env bytes sq]
      by (simp add: ic dispatchOSC_def handleSequence_def dispatchOSC_prepare_def Let_def seq_eq
          split: prod.split)
  qed
  show ?thesis using drop_case bound disp by blast
qed

text \<open>Witness for C7: the string "0;title" under a cap of 4.\<close>

theorem C7_witness:
  "intermediateCharacters (sequence (example_sequencer Primary)) = [] \<and>
   intermediateCharacters (sequence (putOSC_all example_env ''0;title'' (example_sequencer Primary)))
     = ''0;t'' \<and>
   MaxOscLength example_env
     \<le> length (intermediateCharacters
                 (sequence (putOSC_all example_env ''0;title'' (example_sequencer Primary)))) + 1 \<and>
   putOSC example_env CHR ''x'' (putOSC_all example_env ''0;title'' (example_sequencer Primary))
     = putOSC_all example_env ''0;title'' (example_sequencer Primary)"
proof -
  have e: "intermediateCharacters (sequence (example_sequencer Primary)) = []"
    by (simp add: example_sequencer_def)
  have c: "collected example_env ''0;title'' = ''0;t''"
    by (simp add: collected_def example_env_def)
  have ic: "intermediateCharacters (sequence (putOSC_all example_env ''0;title'' (example_sequencer Primary)))
            = ''0;t''"
    using C7_osc_length_cap [of example_env "example_sequencer Primary" "CHR ''x''" "''0;title''"] e c
    by simp
  have m: "MaxOscLength example_env = 4"
    by (simp add: example_env_def)
  show ?thesis
    using C7_osc_length_cap [of example_env
        "putOSC_all example_env ''0;title'' (example_sequencer Primary)" "CHR ''x''" "[]"] e ic m
    by simp
qed

text \<open>
  Claim C8. The permitted width of a bulk text run is 0 whenever the active screen is not
  the primary screen or the current line is not a trivial buffer; otherwise it is the
  distance from the cursor column to the right margin.
\<close>

theorem C8_maxBulkTextSequenceWidth:
  "(\<not> isPrimaryScreen (terminal sq) \<or> \<not> isTrivialBuffer (currentLine (primaryScreen (terminal sq))) \<longrightarrow>
      maxBulkTextSequenceWidth sq = Inr 0) \<and>
   (isPrimaryScreen (terminal sq) \<and> isTrivialBuffer (currentLine (primaryScreen (terminal sq))) \<and>
    cursor_column (currentScreen (terminal sq)) \<le> margin_horizontal_to (currentScreen (terminal sq)) \<and>
    margin_horizontal_to (currentScreen (terminal sq)) - cursor_column (currentScreen (terminal sq)) < size_t_max \<longrightarrow>
      maxBulkTextSequenceWidth sq =
        Inr (nat (margin_horizontal_to (currentScreen (terminal sq))
                  - cursor_column (currentScreen (terminal sq)))))"
  by (auto simp: maxBulkTextSequenceWidth_def Let_def to_size_t_def currentScreen_def)

text \<open>
  Witness for C8: the cursor in column 3 with the right margin at column 9, on the alternate
  and on the primary screen.
\<close>

theorem C8_witness:
  "\<not> isPrimaryScreen (terminal (example_sequencer Alternate)) \<and>
   maxBulkTextSequenceWidth (example_sequencer Alternate) = Inr 0 \<and>
   isPrimaryScreen (terminal (example_sequencer Primary)) \<and>
   isTrivialBuffer (currentLine (primaryScreen (terminal (example_sequencer Primary)))) \<and>
   maxBulkTextSequenceWidth (example_sequencer Primary) = Inr 6"
proof -
  have a: "\<not> isPrimaryScreen (terminal (example_sequencer Alternate))"
    by (simp add: example_sequencer_def isPrimaryScreen_def)
  have p: "isPrimaryScreen (terminal (example_sequencer Primary))"
    "isTrivialBuffer (currentLine (primaryScreen (terminal (example_sequencer Primary))))"
    "cursor_column (currentScreen (terminal (example_sequencer Primary))) = 3"
    "margin_horizontal_to (currentScreen (terminal (example_sequencer Primary))) = 9"
    by (simp_all add: example_sequencer_def isPrimaryScreen_def currentScreen_def example_screen_def
        ascii_line_def isTrivialBuffer_def)
  show ?thesis
    using C8_maxBulkTextSequenceWidth [of "example_sequencer Alternate"]
      C8_maxBulkTextSequenceWidth [of "example_sequencer Primary"] a p
    by (simp add: size_t_max_def)
qed

end
